theory Spec2Isabelle
  imports Main "HOL-Library.Char_ord" "HOL-Library.List_Lexorder"
begin

section \<open>Characters and strings\<close>

text \<open>
  A Python \<open>str\<close> is modelled as a \<open>string\<close> whose characters are read as the code points
  0..255. The character classes below are Python's on that range: \<open>str.isspace\<close> (which is
  also the regular expression class \<open>\s\<close>), the word characters of \<open>\w\<close>, and the simple case
  mappings of \<open>str.lower\<close> and \<open>str.upper\<close>.
\<close>

definition code :: "char \<Rightarrow> nat" where
  "code c = of_char c"

definition newline :: char where
  "newline = CHR 0x0A"

definition is_space :: "char \<Rightarrow> bool" where
  "is_space c \<longleftrightarrow> (9 \<le> code c \<and> code c \<le> 13) \<or> (28 \<le> code c \<and> code c \<le> 32)
      \<or> code c = 133 \<or> code c = 160"

definition is_upper_ascii :: "char \<Rightarrow> bool" where
  "is_upper_ascii c \<longleftrightarrow> 65 \<le> code c \<and> code c \<le> 90"

definition is_lower_ascii :: "char \<Rightarrow> bool" where
  "is_lower_ascii c \<longleftrightarrow> 97 \<le> code c \<and> code c \<le> 122"

definition is_digit :: "char \<Rightarrow> bool" where
  "is_digit c \<longleftrightarrow> 48 \<le> code c \<and> code c \<le> 57"

definition is_upper_latin :: "char \<Rightarrow> bool" where
  "is_upper_latin c \<longleftrightarrow> 192 \<le> code c \<and> code c \<le> 222 \<and> code c \<noteq> 215"

definition is_lower_latin :: "char \<Rightarrow> bool" where
  "is_lower_latin c \<longleftrightarrow> 223 \<le> code c \<and> code c \<le> 255 \<and> code c \<noteq> 247"

definition is_word :: "char \<Rightarrow> bool" where
  "is_word c \<longleftrightarrow> is_upper_ascii c \<or> is_lower_ascii c \<or> is_digit c \<or> code c = 95
      \<or> is_upper_latin c \<or> is_lower_latin c
      \<or> code c = 170 \<or> code c = 178 \<or> code c = 179 \<or> code c = 181 \<or> code c = 185
      \<or> code c = 186 \<or> code c = 188 \<or> code c = 189 \<or> code c = 190"

fun with_bit5 :: "bool \<Rightarrow> char \<Rightarrow> char" where
  "with_bit5 b (Char b0 b1 b2 b3 b4 b5 b6 b7) = Char b0 b1 b2 b3 b4 b b6 b7"

definition lower_chr :: "char \<Rightarrow> char" where
  "lower_chr c = (if is_upper_ascii c \<or> is_upper_latin c then with_bit5 True c else c)"

definition lower :: "string \<Rightarrow> string" where
  "lower s = map lower_chr s"

text \<open>
  \<open>str.upper\<close>: the sharp s (223) becomes \<open>SS\<close>. The capitals of the micro sign (181) and of
  the y with diaeresis (255) lie beyond code point 255; both characters are left as they are,
  which no comparison with an ASCII word can tell apart.
\<close>

definition upper_chr :: "char \<Rightarrow> string" where
  "upper_chr c =
     (if code c = 223 then ''SS''
      else if is_lower_ascii c \<or> (is_lower_latin c \<and> code c \<noteq> 255) then [with_bit5 False c]
      else [c])"

definition upper :: "string \<Rightarrow> string" where
  "upper s = concat (map upper_chr s)"

definition strip :: "string \<Rightarrow> string" where
  "strip s = rev (dropWhile is_space (rev (dropWhile is_space s)))"

definition startswith :: "string \<Rightarrow> string \<Rightarrow> bool" where
  "startswith s p \<longleftrightarrow> take (length p) s = p"

definition replace_chr :: "char \<Rightarrow> char \<Rightarrow> string \<Rightarrow> string" where
  "replace_chr a b s = map (\<lambda>c. if c = a then b else c) s"

text \<open>\<open>s.split(sep, 1)\<close> for a separator of one character.\<close>

definition split1 :: "char \<Rightarrow> string \<Rightarrow> string list" where
  "split1 sep s =
     (if sep \<in> set s
      then [takeWhile (\<lambda>c. c \<noteq> sep) s, tl (dropWhile (\<lambda>c. c \<noteq> sep) s)]
      else [s])"

datatype exn = ParseError | OSError | IndexError

definition index :: "'a list \<Rightarrow> nat \<Rightarrow> exn + 'a" where
  "index xs i = (if i < length xs then Inr (xs ! i) else Inl IndexError)"

section \<open>Regular expressions\<close>

text \<open>
  The patterns of the parser are kept as syntax trees and run by a backtracking matcher with
  the priorities of Python's \<open>re\<close>: a greedy quantifier tries the longer match first, a lazy
  one the shorter, an optional group is tried before it is skipped, and the first success
  wins. Every quantifier of the source's patterns stands on a single-character class, so the
  quantifiers take a class. The matcher works on the rest of the subject; none of the patterns
  looks behind.
\<close>

datatype flag = IGNORECASE | DOTALL | MULTILINE

datatype cls = Space | Word | Dot | NoneOf string

datatype rx =
    Chr char
  | Cls cls
  | Many cls
  | Few cls
  | Many1 cls
  | Grp nat "rx list"
  | Opt "rx list"
  | Alt "rx list" "rx list"
  | Eos
  | Close nat string

type_synonym groups = "nat \<Rightarrow> string option"

definition chr_eq :: "flag set \<Rightarrow> char \<Rightarrow> char \<Rightarrow> bool" where
  "chr_eq fl x c \<longleftrightarrow> (if IGNORECASE \<in> fl then lower_chr x = lower_chr c else x = c)"

fun cmem :: "flag set \<Rightarrow> cls \<Rightarrow> char \<Rightarrow> bool" where
  "cmem fl Space c = is_space c"
| "cmem fl Word c = is_word c"
| "cmem fl Dot c = (DOTALL \<in> fl \<or> c \<noteq> newline)"
| "cmem fl (NoneOf cs) c = (c \<notin> set cs)"

definition at_end :: "flag set \<Rightarrow> string \<Rightarrow> bool" where
  "at_end fl s \<longleftrightarrow> s = [] \<or> (if MULTILINE \<in> fl then hd s = newline else s = [newline])"

text \<open>
  Occurrences of a literal word, compared as the matcher compares literal characters: the word
  is at the start of the text, somewhere in it, or nowhere in \<open>pre @ rest\<close> from a position
  of \<open>pre\<close>.
\<close>

fun starts :: "flag set \<Rightarrow> string \<Rightarrow> string \<Rightarrow> bool" where
  "starts fl [] s = True"
| "starts fl (c # cs) [] = False"
| "starts fl (c # cs) (x # xs) = (chr_eq fl x c \<and> starts fl cs xs)"

fun occurs :: "flag set \<Rightarrow> string \<Rightarrow> string \<Rightarrow> bool" where
  "occurs fl w [] = starts fl w []"
| "occurs fl w (x # xs) = (starts fl w (x # xs) \<or> occurs fl w xs)"


fun weight :: "rx \<Rightarrow> nat" where
  "weight (Many1 c) = 3"
| "weight (Grp n r) = 2 + sum_list (map weight r)"
| "weight (Opt r) = 1 + sum_list (map weight r)"
| "weight (Alt a b) = 1 + sum_list (map weight a) + sum_list (map weight b)"
| "weight _ = 1"

text \<open>
  \<open>rmatch fl k s g\<close> matches the items \<open>k\<close> at the start of \<open>s\<close> and returns the unmatched rest
  with the groups. \<open>Grp n r\<close> is the capturing group \<open>n\<close>; \<open>Close n s0\<close> is its end, pushed
  when the group opens at \<open>s0\<close>.
\<close>

function rmatch :: "flag set \<Rightarrow> rx list \<Rightarrow> string \<Rightarrow> groups \<Rightarrow> (string \<times> groups) option" where
  "rmatch fl [] s g = Some (s, g)"
| "rmatch fl (Chr c # k) [] g = None"
| "rmatch fl (Chr c # k) (x # xs) g = (if chr_eq fl x c then rmatch fl k xs g else None)"
| "rmatch fl (Cls c # k) [] g = None"
| "rmatch fl (Cls c # k) (x # xs) g = (if cmem fl c x then rmatch fl k xs g else None)"
| "rmatch fl (Many c # k) [] g = rmatch fl k [] g"
| "rmatch fl (Many c # k) (x # xs) g =
     (if cmem fl c x
      then (case rmatch fl (Many c # k) xs g of
              Some m \<Rightarrow> Some m
            | None \<Rightarrow> rmatch fl k (x # xs) g)
      else rmatch fl k (x # xs) g)"
| "rmatch fl (Few c # k) [] g = rmatch fl k [] g"
| "rmatch fl (Few c # k) (x # xs) g =
     (case rmatch fl k (x # xs) g of
        Some m \<Rightarrow> Some m
      | None \<Rightarrow> if cmem fl c x then rmatch fl (Few c # k) xs g else None)"
| "rmatch fl (Many1 c # k) s g = rmatch fl (Cls c # Many c # k) s g"
| "rmatch fl (Grp n r # k) s g = rmatch fl (r @ Close n s # k) s g"
| "rmatch fl (Close n s0 # k) s g =
     rmatch fl k s (g(n \<mapsto> take (length s0 - length s) s0))"
| "rmatch fl (Opt r # k) s g =
     (case rmatch fl (r @ k) s g of Some m \<Rightarrow> Some m | None \<Rightarrow> rmatch fl k s g)"
| "rmatch fl (Alt a b # k) s g =
     (case rmatch fl (a @ k) s g of Some m \<Rightarrow> Some m | None \<Rightarrow> rmatch fl (b @ k) s g)"
| "rmatch fl (Eos # k) s g = (if at_end fl s then rmatch fl k s g else None)"
  by pat_completeness auto
termination
  by (relation "measures [\<lambda>(fl, k, s, g). sum_list (map weight k), \<lambda>(fl, k, s, g). length s]")
     auto

text \<open>\<open>re.search\<close>: the first position at which the pattern matches.\<close>

fun rsearch :: "flag set \<Rightarrow> rx list \<Rightarrow> string \<Rightarrow> (string \<times> groups) option" where
  "rsearch fl p [] = rmatch fl p [] Map.empty"
| "rsearch fl p (x # xs) =
     (case rmatch fl p (x # xs) Map.empty of
        Some m \<Rightarrow> Some m
      | None \<Rightarrow> rsearch fl p xs)"

text \<open>
  \<open>re.finditer\<close>: the matches from left to right, each search starting where the last match
  ended. A match that consumed nothing moves the search one character on; none of the
  patterns of the parser matches the empty string.
\<close>

function finditer :: "flag set \<Rightarrow> rx list \<Rightarrow> string \<Rightarrow> groups list" where
  "finditer fl p [] = (case rmatch fl p [] Map.empty of Some (rest, g) \<Rightarrow> [g] | None \<Rightarrow> [])"
| "finditer fl p (x # xs) =
     (case rmatch fl p (x # xs) Map.empty of
        Some (rest, g) \<Rightarrow>
          if length rest < length (x # xs) then g # finditer fl p rest
          else g # finditer fl p xs
      | None \<Rightarrow> finditer fl p xs)"
  by pat_completeness auto
termination
  by (relation "measure (\<lambda>(fl, p, s). length s)") auto

text \<open>\<open>match.group(n)\<close>, with \<open>None\<close> for a group that took no part.\<close>

definition group :: "groups \<Rightarrow> nat \<Rightarrow> string option" where
  "group g n = g n"

text \<open>\<open>re.findall\<close> for a pattern with one group: the text of group 1 of every match.\<close>

definition findall :: "flag set \<Rightarrow> rx list \<Rightarrow> string \<Rightarrow> string list" where
  "findall fl p s = map (\<lambda>g. case group g 1 of None \<Rightarrow> [] | Some v \<Rightarrow> v) (finditer fl p s)"

definition lit :: "string \<Rightarrow> rx list" where
  "lit s = map Chr s"

section \<open>The declaration extractor\<close>

subsection \<open>Documentation: \<open>_extract_documentation\<close>\<close>

record doc_info =
  description :: string
  author :: string
  version :: string
  date :: string
  comments :: "string list"

text \<open>The pattern \<open>//\s*(.*)\<close>, used without flags.\<close>

definition line_comment_pattern :: "rx list" where
  "line_comment_pattern = lit ''//'' @ [Many Space, Grp 1 [Many Dot]]"

text \<open>The pattern \<open>\(\*\s*(.*?)\s*\*\)\<close>, used with \<open>re.DOTALL\<close>.\<close>

definition block_comment_pattern :: "rx list" where
  "block_comment_pattern = lit ''(*'' @ [Many Space, Grp 1 [Few Dot], Many Space] @ lit ''*)''"

text \<open>\<open>line.split(':', 1)[1].strip()\<close>\<close>

definition label_value :: "string \<Rightarrow> exn + string" where
  "label_value line =
     (case index (split1 CHR '':'' line) 1 of Inl e \<Rightarrow> Inl e | Inr v \<Rightarrow> Inr (strip v))"

text \<open>The body of the loop over the comment lines.\<close>

definition doc_step :: "doc_info \<Rightarrow> string \<Rightarrow> exn + doc_info" where
  "doc_step d line =
     (let line_lower = strip (lower line) in
      if startswith line_lower ''purpose:'' \<or> startswith line_lower ''description:'' then
        (case label_value line of Inl e \<Rightarrow> Inl e | Inr v \<Rightarrow> Inr (d\<lparr>description := v\<rparr>))
      else if startswith line_lower ''author:'' then
        (case label_value line of Inl e \<Rightarrow> Inl e | Inr v \<Rightarrow> Inr (d\<lparr>author := v\<rparr>))
      else if startswith line_lower ''version:'' then
        (case label_value line of Inl e \<Rightarrow> Inl e | Inr v \<Rightarrow> Inr (d\<lparr>version := v\<rparr>))
      else if startswith line_lower ''date:'' then
        (case label_value line of Inl e \<Rightarrow> Inl e | Inr v \<Rightarrow> Inr (d\<lparr>date := v\<rparr>))
      else Inr d)"

fun doc_loop :: "string list \<Rightarrow> doc_info \<Rightarrow> exn + doc_info" where
  "doc_loop [] d = Inr d"
| "doc_loop (line # ls) d =
     (case doc_step d line of Inl e \<Rightarrow> Inl e | Inr d' \<Rightarrow> doc_loop ls d')"

definition comment_lines :: "string \<Rightarrow> string list" where
  "comment_lines text = findall {} line_comment_pattern text"

definition comment_blocks :: "string \<Rightarrow> string list" where
  "comment_blocks text = findall {DOTALL} block_comment_pattern text"

definition extract_documentation :: "string \<Rightarrow> exn + doc_info" where
  "extract_documentation text =
     (case doc_loop (comment_lines text)
             \<lparr>description = [], author = [], version = [], date = [],
              comments = comment_lines text\<rparr> of
        Inl e \<Rightarrow> Inl e
      | Inr d \<Rightarrow>
          (case comment_blocks text of
             [] \<Rightarrow> Inr d
           | b # bs \<Rightarrow> Inr (d\<lparr>description := strip b\<rparr>)))"

text \<open>
  The four labels of a comment line, as the loop tests them: a line has a label when its
  lower-cased, stripped text starts with one of the prefixes of the label; the label selects
  the field that the line sets.
\<close>

datatype label = Description | Author | Version | Date

fun prefixes :: "label \<Rightarrow> string list" where
  "prefixes Description = [''purpose:'', ''description:'']"
| "prefixes Author = [''author:'']"
| "prefixes Version = [''version:'']"
| "prefixes Date = [''date:'']"

fun set_field :: "label \<Rightarrow> string \<Rightarrow> doc_info \<Rightarrow> doc_info" where
  "set_field Description v d = d\<lparr>description := v\<rparr>"
| "set_field Author v d = d\<lparr>author := v\<rparr>"
| "set_field Version v d = d\<lparr>version := v\<rparr>"
| "set_field Date v d = d\<lparr>date := v\<rparr>"

definition has_label :: "label \<Rightarrow> string \<Rightarrow> bool" where
  "has_label L line \<longleftrightarrow> (\<exists>p \<in> set (prefixes L). startswith (strip (lower line)) p)"

subsection \<open>Variables: \<open>_extract_variables\<close>\<close>

text \<open>The dictionary with the keys \<open>name\<close>, \<open>type\<close>, \<open>default\<close> and \<open>comment\<close>.\<close>

record variable =
  var_name :: string
  var_type :: string
  var_default :: string
  var_comment :: string

text \<open>
  The pattern
  \<open>(\w+)\s*:\s*([^;:=]+)(?:\s*:=\s*([^;]+))?\s*;?\s*(?://\s*(.*))?\<close>,
  used with \<open>re.MULTILINE\<close>.
\<close>

definition var_pattern :: "rx list" where
  "var_pattern =
     [Grp 1 [Many1 Word], Many Space, Chr CHR '':'', Many Space,
      Grp 2 [Many1 (NoneOf '';:='')],
      Opt [Many Space, Chr CHR '':'', Chr CHR ''='', Many Space, Grp 3 [Many1 (NoneOf '';'')]],
      Many Space, Opt [Chr CHR '';''], Many Space,
      Opt [Chr CHR ''/'', Chr CHR ''/'', Many Space, Grp 4 [Many Dot]]]"

text \<open>
  The patterns \<open>VAR_GLOBAL(.*?)END_VAR\<close>, \<open>VAR_INPUT(.*?)END_VAR\<close>, \<open>VAR_OUTPUT(.*?)END_VAR\<close>
  and \<open>VAR(?:\s|$)(.*?)END_VAR\<close>, all used with \<open>re.DOTALL | re.IGNORECASE\<close>.
\<close>

definition var_global_pattern :: "rx list" where
  "var_global_pattern = lit ''VAR_GLOBAL'' @ [Grp 1 [Few Dot]] @ lit ''END_VAR''"

definition var_input_pattern :: "rx list" where
  "var_input_pattern = lit ''VAR_INPUT'' @ [Grp 1 [Few Dot]] @ lit ''END_VAR''"

definition var_output_pattern :: "rx list" where
  "var_output_pattern = lit ''VAR_OUTPUT'' @ [Grp 1 [Few Dot]] @ lit ''END_VAR''"

definition var_local_pattern :: "rx list" where
  "var_local_pattern =
     lit ''VAR'' @ [Alt [Cls Space] [Eos], Grp 1 [Few Dot]] @ lit ''END_VAR''"

definition var_blocks :: "string \<Rightarrow> bool \<Rightarrow> string list" where
  "var_blocks text is_global =
     (if is_global then findall {DOTALL, IGNORECASE} var_global_pattern text
      else findall {DOTALL, IGNORECASE} var_input_pattern text
         @ findall {DOTALL, IGNORECASE} var_output_pattern text
         @ findall {DOTALL, IGNORECASE} var_local_pattern text)"

text \<open>\<open>match.group(n).strip() if match.group(n) else ''\<close>\<close>

definition group_or_empty :: "groups \<Rightarrow> nat \<Rightarrow> string" where
  "group_or_empty g n =
     (case group g n of None \<Rightarrow> [] | Some v \<Rightarrow> if v = [] then [] else strip v)"

text \<open>\<open>match.group(n).strip()\<close> for the groups 1 and 2, which take part in every match.\<close>

definition group_strip :: "groups \<Rightarrow> nat \<Rightarrow> string" where
  "group_strip g n = (case group g n of None \<Rightarrow> [] | Some v \<Rightarrow> strip v)"

definition keyword_names :: "string list" where
  "keyword_names = [''VAR'', ''END_VAR'', ''VAR_INPUT'', ''VAR_OUTPUT'']"

text \<open>The body of the loop over the matches of one block.\<close>

definition variable_of :: "groups \<Rightarrow> variable list" where
  "variable_of g =
     (let name = group_strip g 1; data_type = group_strip g 2;
          default_value = group_or_empty g 3; comment = group_or_empty g 4
      in if name \<noteq> [] \<and> upper name \<notin> set keyword_names
         then [\<lparr>var_name = name, var_type = data_type, var_default = default_value,
                var_comment = comment\<rparr>]
         else [])"

definition block_variables :: "string \<Rightarrow> variable list" where
  "block_variables block = concat (map variable_of (finditer {MULTILINE} var_pattern block))"

definition extract_variables :: "string \<Rightarrow> bool \<Rightarrow> variable list" where
  "extract_variables text is_global = concat (map block_variables (var_blocks text is_global))"

subsection \<open>Structure members: \<open>_extract_struct_members\<close>\<close>

text \<open>The pattern \<open>STRUCT\s*(.*?)END_STRUCT\<close>, used with \<open>re.DOTALL | re.IGNORECASE\<close>.\<close>

definition struct_pattern :: "rx list" where
  "struct_pattern = lit ''STRUCT'' @ [Many Space, Grp 1 [Few Dot]] @ lit ''END_STRUCT''"

text \<open>The member pattern is the pattern of the variables.\<close>

definition member_pattern :: "rx list" where
  "member_pattern =
     [Grp 1 [Many1 Word], Many Space, Chr CHR '':'', Many Space,
      Grp 2 [Many1 (NoneOf '';:='')],
      Opt [Many Space, Chr CHR '':'', Chr CHR ''='', Many Space, Grp 3 [Many1 (NoneOf '';'')]],
      Many Space, Opt [Chr CHR '';''], Many Space,
      Opt [Chr CHR ''/'', Chr CHR ''/'', Many Space, Grp 4 [Many Dot]]]"

definition member_of :: "groups \<Rightarrow> variable list" where
  "member_of g =
     (let name = group_strip g 1; data_type = group_strip g 2;
          default_value = group_or_empty g 3; comment = group_or_empty g 4
      in if name \<noteq> []
         then [\<lparr>var_name = name, var_type = data_type, var_default = default_value,
                var_comment = comment\<rparr>]
         else [])"

definition struct_members :: "string \<Rightarrow> variable list" where
  "struct_members struct_content =
     concat (map member_of (finditer {MULTILINE} member_pattern struct_content))"

definition extract_struct_members :: "string \<Rightarrow> variable list" where
  "extract_struct_members text =
     (case rsearch {DOTALL, IGNORECASE} struct_pattern text of
        None \<Rightarrow> []
      | Some (rest, g) \<Rightarrow>
          (case group g 1 of None \<Rightarrow> [] | Some struct_content \<Rightarrow> struct_members struct_content))"

section \<open>Source files\<close>

subsection \<open>XML documents\<close>

text \<open>
  An element of \<open>xml.etree.ElementTree\<close>: its tag, its attributes, the text before its first
  child (\<open>None\<close> when there is none) and its children.
\<close>

datatype xml =
  Element (tag: string) (attrib: "(string \<times> string) list") (etext: "string option")
    (children: "xml list")

text \<open>\<open>Element.iter()\<close>: the element and everything below it, in document order.\<close>

fun iter :: "xml \<Rightarrow> xml list" where
  "iter (Element t a x cs) = Element t a x cs # concat (map iter cs)"

text \<open>The step \<open>.//\<close> of a path: what lies below the element, the element itself left out.\<close>

definition descendants :: "xml \<Rightarrow> xml list" where
  "descendants e = concat (map iter (children e))"

text \<open>\<open>root.findall(".//TAG")\<close> and \<open>root.find(".//TAG")\<close>\<close>

definition findall_below :: "string \<Rightarrow> xml \<Rightarrow> xml list" where
  "findall_below t root = filter (\<lambda>e. tag e = t) (descendants root)"

definition find_below :: "string \<Rightarrow> xml \<Rightarrow> xml option" where
  "find_below t root = (case findall_below t root of [] \<Rightarrow> None | e # es \<Rightarrow> Some e)"

text \<open>\<open>root.find(".//A/B")\<close>: the first child \<open>B\<close> of an element \<open>A\<close> below the root.\<close>

definition find_child_below :: "string \<Rightarrow> string \<Rightarrow> xml \<Rightarrow> xml option" where
  "find_child_below a b root =
     (case filter (\<lambda>e. tag e = b) (concat (map children (findall_below a root))) of
        [] \<Rightarrow> None
      | e # es \<Rightarrow> Some e)"

text \<open>\<open>element.get(key)\<close> and \<open>element.get(key, default)\<close>\<close>

definition get :: "xml \<Rightarrow> string \<Rightarrow> string option" where
  "get e key = map_of (attrib e) key"

definition get_default :: "xml \<Rightarrow> string \<Rightarrow> string \<Rightarrow> string" where
  "get_default e key d = (case get e key of None \<Rightarrow> d | Some v \<Rightarrow> v)"

text \<open>
  The text of the first element with the given tag below the root, stripped; empty when the
  element is missing or has no text.
\<close>

definition stripped_text :: "xml option \<Rightarrow> string" where
  "stripped_text el =
     (case el of
        None \<Rightarrow> []
      | Some e \<Rightarrow> (case etext e of None \<Rightarrow> [] | Some t \<Rightarrow> if t = [] then [] else strip t))"

subsection \<open>Files and the log\<close>

text \<open>
  What \<open>ET.parse\<close> does with a file: it raises \<open>ParseError\<close> (the file is not well-formed),
  it raises another exception (\<open>OSError\<close>: the entry is a directory or cannot be read), or
  it returns the document.
\<close>

datatype content = Unreadable | Malformed | Wellformed xml

text \<open>
  A path is kept relative to the project root, as its list of components; \<open>str(path)\<close> joins
  them with the separator of the operating system.
\<close>

type_synonym path = "string list"

type_synonym entry = "path \<times> content"

fun str_path :: "char \<Rightarrow> path \<Rightarrow> string" where
  "str_path sep [] = ''.''"
| "str_path sep [n] = n"
| "str_path sep (n # m # ns) = n @ sep # str_path sep (m # ns)"

datatype level = INFO | WARNING | ERROR

datatype message =
    Parsing_project
  | Found_files string nat
  | Error_parsing_file string path exn
  | XML_parse_error path
  | Could_not_parse_project_file exn
  | Could_not_parse_includes path exn

type_synonym log = "(level \<times> message) list"

record pou_info =
  pou_name :: string
  pou_type :: string
  pou_file_path :: string
  pou_description :: string
  pou_author :: string
  pou_version :: string
  pou_date :: string
  pou_variables :: "variable list"
  pou_implementation :: string
  pou_comments :: "string list"

record dut_info =
  dut_name :: string
  dut_type :: string
  dut_file_path :: string
  dut_description :: string
  dut_author :: string
  dut_version :: string
  dut_members :: "variable list"
  dut_comments :: "string list"

record gvl_info =
  gvl_name :: string
  gvl_file_path :: string
  gvl_description :: string
  gvl_variables :: "variable list"
  gvl_comments :: "string list"

text \<open>\<open>needle in text\<close> for two strings.\<close>

definition contains :: "string \<Rightarrow> string \<Rightarrow> bool" where
  "contains text needle \<longleftrightarrow> occurs {} needle text"

subsection \<open>One file: \<open>_parse_pou_file\<close>, \<open>_parse_dut_file\<close>, \<open>_parse_gvl_file\<close>\<close>

text \<open>
  Each function returns the unit, or \<open>None\<close> for a skipped file, or the exception that leaves
  it; the log is passed through. \<open>ParseError\<close> is caught inside and logged.
\<close>

definition parse_pou_file :: "char \<Rightarrow> entry \<Rightarrow> log \<Rightarrow> (exn + pou_info option) \<times> log" where
  "parse_pou_file sep f lg =
     (case snd f of
        Unreadable \<Rightarrow> (Inl OSError, lg)
      | Malformed \<Rightarrow> (Inr None, lg @ [(ERROR, XML_parse_error (fst f))])
      | Wellformed root \<Rightarrow>
          (case find_below ''POU'' root of
             None \<Rightarrow> (Inr None, lg)
           | Some pou_element \<Rightarrow>
               (let name = get_default pou_element ''Name'' ''Unknown'';
                    pou_type = get_default pou_element ''SpecialFunc'' ''PROGRAM'';
                    declaration_text = stripped_text (find_below ''Declaration'' root);
                    implementation_text =
                      stripped_text (find_child_below ''Implementation'' ''ST'' root)
                in case extract_documentation declaration_text of
                     Inl e \<Rightarrow> (Inl e, lg)
                   | Inr doc \<Rightarrow>
                       (Inr (Some \<lparr>pou_name = name, pou_type = pou_type,
                                   pou_file_path = str_path sep (fst f),
                                   pou_description = description doc,
                                   pou_author = author doc,
                                   pou_version = version doc,
                                   pou_date = date doc,
                                   pou_variables = extract_variables declaration_text False,
                                   pou_implementation = implementation_text,
                                   pou_comments = comments doc\<rparr>), lg))))"

definition parse_dut_file :: "char \<Rightarrow> entry \<Rightarrow> log \<Rightarrow> (exn + dut_info option) \<times> log" where
  "parse_dut_file sep f lg =
     (case snd f of
        Unreadable \<Rightarrow> (Inl OSError, lg)
      | Malformed \<Rightarrow> (Inr None, lg @ [(ERROR, XML_parse_error (fst f))])
      | Wellformed root \<Rightarrow>
          (case find_below ''DUT'' root of
             None \<Rightarrow> (Inr None, lg)
           | Some dut_element \<Rightarrow>
               (let name = get_default dut_element ''Name'' ''Unknown'';
                    declaration_text = stripped_text (find_below ''Declaration'' root)
                in case extract_documentation declaration_text of
                     Inl e \<Rightarrow> (Inl e, lg)
                   | Inr doc \<Rightarrow>
                       (Inr (Some \<lparr>dut_name = name,
                                   dut_type =
                                     (if contains declaration_text ''TYPE''
                                         \<and> contains declaration_text ''ENUM''
                                      then ''ENUM'' else ''STRUCT''),
                                   dut_file_path = str_path sep (fst f),
                                   dut_description = description doc,
                                   dut_author = author doc,
                                   dut_version = version doc,
                                   dut_members = extract_struct_members declaration_text,
                                   dut_comments = comments doc\<rparr>), lg))))"

definition parse_gvl_file :: "char \<Rightarrow> entry \<Rightarrow> log \<Rightarrow> (exn + gvl_info option) \<times> log" where
  "parse_gvl_file sep f lg =
     (case snd f of
        Unreadable \<Rightarrow> (Inl OSError, lg)
      | Malformed \<Rightarrow> (Inr None, lg @ [(ERROR, XML_parse_error (fst f))])
      | Wellformed root \<Rightarrow>
          (case find_below ''GVL'' root of
             None \<Rightarrow> (Inr None, lg)
           | Some gvl_element \<Rightarrow>
               (let name = get_default gvl_element ''Name'' ''Unknown'';
                    declaration_text = stripped_text (find_below ''Declaration'' root)
                in case extract_documentation declaration_text of
                     Inl e \<Rightarrow> (Inl e, lg)
                   | Inr doc \<Rightarrow>
                       (Inr (Some \<lparr>gvl_name = name,
                                   gvl_file_path = str_path sep (fst f),
                                   gvl_description = description doc,
                                   gvl_variables = extract_variables declaration_text True,
                                   gvl_comments = comments doc\<rparr>), lg))))"

section \<open>The project scanner\<close>

text \<open>
  The project directory: the separator of the operating system, and for a pattern what
  \<open>project_root.glob(pattern)\<close> yields, in its order: the paths, each with what \<open>ET.parse\<close>
  does with the file.
\<close>

record project =
  sep :: char
  glob :: "string \<Rightarrow> entry list"

definition backslash :: char where
  "backslash = CHR 0x5C"

definition msbuild_compile :: string where
  "msbuild_compile = ''{http://schemas.microsoft.com/developer/msbuild/2003}Compile''"

text \<open>
  The \<open>Include\<close> attribute of a compile item, its separators normalised, when it is there and
  not empty.
\<close>

definition include_of :: "xml \<Rightarrow> string list" where
  "include_of compile_item =
     (case get compile_item ''Include'' of
        None \<Rightarrow> []
      | Some inc \<Rightarrow> if inc = [] then [] else [replace_chr backslash CHR ''/'' inc])"

text \<open>What one parsed project file appends to \<open>includes\<close>.\<close>

definition manifest_includes :: "xml \<Rightarrow> string list" where
  "manifest_includes root =
     concat (map include_of (findall_below msbuild_compile root))
     @ concat (map include_of (findall_below ''Compile'' root))"

text \<open>The loop of \<open>_get_project_included_files\<close> over the project files.\<close>

fun includes_loop :: "entry list \<Rightarrow> string list \<times> log \<Rightarrow> string list \<times> log" where
  "includes_loop [] st = st"
| "includes_loop (proj # ps) (includes, lg) =
     (case snd proj of
        Unreadable \<Rightarrow>
          includes_loop ps
            (includes, lg @ [(WARNING, Could_not_parse_includes (fst proj) OSError)])
      | Malformed \<Rightarrow>
          includes_loop ps
            (includes, lg @ [(WARNING, Could_not_parse_includes (fst proj) ParseError)])
      | Wellformed root \<Rightarrow> includes_loop ps (includes @ manifest_includes root, lg))"

definition get_project_included_files :: "project \<Rightarrow> string list \<times> log" where
  "get_project_included_files proj =
     (case includes_loop (glob proj ''*.tsproj'') ([], []) of
        (includes, lg) \<Rightarrow> (sort (remdups includes), lg))"

text \<open>The parser object: \<open>__init__\<close> reads the included files.\<close>

record parser =
  project_root :: project
  pous :: "pou_info list"
  duts :: "dut_info list"
  gvls :: "gvl_info list"
  included_files :: "string list"
  logged :: log

definition init :: "project \<Rightarrow> parser" where
  "init proj =
     (case get_project_included_files proj of
        (inc, lg) \<Rightarrow>
          \<lparr>project_root = proj, pous = [], duts = [], gvls = [], included_files = inc,
           logged = lg\<rparr>)"

text \<open>
  The selection of the files of one kind, written three times in the source: the files that
  the pattern yields, filtered by the included files when there are any.
  \<open>relative_name\<close> is \<open>str(p.relative_to(self.project_root)).replace('\\', '/')\<close>.
\<close>

definition relative_name :: "project \<Rightarrow> path \<Rightarrow> string" where
  "relative_name proj p = replace_chr backslash CHR ''/'' (str_path (sep proj) p)"

definition select_files :: "parser \<Rightarrow> string \<Rightarrow> entry list" where
  "select_files st pattern =
     (let all_files = glob (project_root st) pattern in
      if included_files st \<noteq> []
      then filter (\<lambda>p. relative_name (project_root st) (fst p) \<in> set (included_files st))
             all_files
      else all_files)"

definition pou_files :: "parser \<Rightarrow> entry list" where
  "pou_files st = select_files st ''**/*.TcPOU''"

definition dut_files :: "parser \<Rightarrow> entry list" where
  "dut_files st = select_files st ''**/*.TcDUT''"

definition gvl_files :: "parser \<Rightarrow> entry list" where
  "gvl_files st = select_files st ''**/*.TcGVL''"

text \<open>
  The loop over the files of one kind, also written three times: a unit is appended, a
  skipped file changes nothing, and an exception is caught, logged as an error, and the loop
  goes on.
\<close>

fun parse_loop ::
  "(entry \<Rightarrow> log \<Rightarrow> (exn + 'u option) \<times> log) \<Rightarrow> string \<Rightarrow> entry list \<Rightarrow> 'u list \<times> log
     \<Rightarrow> 'u list \<times> log" where
  "parse_loop parse_file kind [] st = st"
| "parse_loop parse_file kind (f # fs) (units, lg) =
     (case parse_file f lg of
        (Inr (Some info), lg') \<Rightarrow> parse_loop parse_file kind fs (units @ [info], lg')
      | (Inr None, lg') \<Rightarrow> parse_loop parse_file kind fs (units, lg')
      | (Inl e, lg') \<Rightarrow>
          parse_loop parse_file kind fs
            (units, lg' @ [(ERROR, Error_parsing_file kind (fst f) e)]))"

definition parse_pous :: "parser \<Rightarrow> parser" where
  "parse_pous st =
     (case parse_loop (parse_pou_file (sep (project_root st))) ''POU'' (pou_files st)
             (pous st, logged st @ [(INFO, Found_files ''POU'' (length (pou_files st)))]) of
        (units, lg) \<Rightarrow> st\<lparr>pous := units, logged := lg\<rparr>)"

definition parse_duts :: "parser \<Rightarrow> parser" where
  "parse_duts st =
     (case parse_loop (parse_dut_file (sep (project_root st))) ''DUT'' (dut_files st)
             (duts st, logged st @ [(INFO, Found_files ''DUT'' (length (dut_files st)))]) of
        (units, lg) \<Rightarrow> st\<lparr>duts := units, logged := lg\<rparr>)"

definition parse_gvls :: "parser \<Rightarrow> parser" where
  "parse_gvls st =
     (case parse_loop (parse_gvl_file (sep (project_root st))) ''GVL'' (gvl_files st)
             (gvls st, logged st @ [(INFO, Found_files ''GVL'' (length (gvl_files st)))]) of
        (units, lg) \<Rightarrow> st\<lparr>gvls := units, logged := lg\<rparr>)"

text \<open>
  \<open>_get_project_info\<close>: the fixed entries and the three counts; the name is replaced by the
  text of the first \<open>Name\<close> element of the first project file when that file parses and the
  text is not empty. Any exception of \<open>ET.parse\<close> is caught and logged as a warning.
\<close>

record project_info =
  info_name :: string
  info_description :: string
  info_version :: string
  info_author :: string
  pou_count :: nat
  dut_count :: nat
  gvl_count :: nat

definition get_project_info :: "parser \<Rightarrow> project_info \<times> log" where
  "get_project_info st =
     (let project_info =
            \<lparr>info_name = ''Demo TwinCAT Project'',
             info_description = ''GitHub integration demonstration with TwinCAT3'',
             info_version = ''1.0.0'', info_author = ''Demo System'',
             pou_count = length (pous st), dut_count = length (duts st),
             gvl_count = length (gvls st)\<rparr>
      in case glob (project_root st) ''*.tsproj'' of
           [] \<Rightarrow> (project_info, logged st)
         | f # fs \<Rightarrow>
             (case snd f of
                Unreadable \<Rightarrow>
                  (project_info,
                   logged st @ [(WARNING, Could_not_parse_project_file OSError)])
              | Malformed \<Rightarrow>
                  (project_info,
                   logged st @ [(WARNING, Could_not_parse_project_file ParseError)])
              | Wellformed root \<Rightarrow>
                  (case find_below ''Name'' root of
                     None \<Rightarrow> (project_info, logged st)
                   | Some name_element \<Rightarrow>
                       (case etext name_element of
                          None \<Rightarrow> (project_info, logged st)
                        | Some t \<Rightarrow>
                            if t = [] then (project_info, logged st)
                            else (project_info\<lparr>info_name := t\<rparr>, logged st)))))"

text \<open>
  \<open>parse_project\<close>: the returned dictionary is the three lists of the parser and the project
  information.
\<close>

definition parse_project :: "parser \<Rightarrow> parser \<times> project_info" where
  "parse_project st =
     (let st1 = st\<lparr>logged := logged st @ [(INFO, Parsing_project)]\<rparr>;
          st2 = parse_pous st1;
          st3 = parse_duts st2;
          st4 = parse_gvls st3
      in case get_project_info st4 of
           (project_info, lg) \<Rightarrow> (st4\<lparr>logged := lg\<rparr>, project_info))"

text \<open>
  Notions of the statements: what a file gives to the list of its kind, taken from the file
  function alone; the errors that the loop and the file function log for a file; and the
  entries that the project files which parse list, as \<open>_get_project_included_files\<close> reads
  them.
\<close>

definition contribution :: "(entry \<Rightarrow> log \<Rightarrow> (exn + 'u option) \<times> log) \<Rightarrow> entry \<Rightarrow> 'u list" where
  "contribution parse_file f =
     (case fst (parse_file f []) of Inr (Some info) \<Rightarrow> [info] | _ \<Rightarrow> [])"

definition logged_errors :: "string \<Rightarrow> entry \<Rightarrow> log" where
  "logged_errors kind f =
     (case snd f of
        Unreadable \<Rightarrow> [(ERROR, Error_parsing_file kind (fst f) OSError)]
      | Malformed \<Rightarrow> [(ERROR, XML_parse_error (fst f))]
      | Wellformed root \<Rightarrow> [])"

definition listed_in :: "entry \<Rightarrow> string list" where
  "listed_in f =
     (case snd f of Wellformed root \<Rightarrow> manifest_includes root | _ \<Rightarrow> [])"

definition listed :: "project \<Rightarrow> string set" where
  "listed proj = set (concat (map listed_in (glob proj ''*.tsproj'')))"

text \<open>
  A directory in which no pattern yields a file. The example projects below are updates of
  it at the patterns that the scanner uses.
\<close>

definition no_files :: "string \<Rightarrow> entry list" where
  "no_files pattern = []"

section \<open>Lemmas on the matcher\<close>

lemmas class_defs = is_space_def is_word_def is_upper_ascii_def is_lower_ascii_def is_digit_def
  is_upper_latin_def is_lower_latin_def code_def lower_chr_def upper_chr_def newline_def
  chr_eq_def at_end_def

lemmas string_defs = lit_def findall_def group_def group_or_empty_def group_strip_def strip_def
  upper_def lower_def startswith_def split1_def index_def label_value_def keyword_names_def

lemmas variables_defs = extract_variables_def var_blocks_def block_variables_def
  variable_of_def var_pattern_def var_global_pattern_def var_input_pattern_def
  var_output_pattern_def var_local_pattern_def

lemmas members_defs = extract_struct_members_def struct_members_def member_of_def
  member_pattern_def struct_pattern_def

lemmas documentation_defs = extract_documentation_def comment_lines_def comment_blocks_def
  doc_step_def line_comment_pattern_def block_comment_pattern_def

lemma rmatch_lit:
  "rmatch fl (lit w @ k) s g =
     (if starts fl w s then rmatch fl k (drop (length w) s) g else None)"
proof (induction w arbitrary: s)
  case Nil
  then show ?case by (simp add: lit_def)
next
  case (Cons c cs)
  then show ?case by (cases s) (simp_all add: lit_def)
qed

lemma rmatch_lit_only:
  "rmatch fl (lit w) s g = (if starts fl w s then Some (drop (length w) s, g) else None)"
  using rmatch_lit [of fl w "[]" s g] by simp

lemma starts_refl: "starts fl w (w @ s)"
  by (induction w) (simp_all add: chr_eq_def)


subsection \<open>Occurrences of a word\<close>






subsection \<open>The documentation loop\<close>

lemma lower_chr_colon:
  assumes "lower_chr c = CHR '':''"
  shows "c = CHR '':''"
proof (cases c)
  case (Char b0 b1 b2 b3 b4 b5 b6 b7)
  then show ?thesis
    using assms
    by (cases b5)
       (auto simp: lower_chr_def is_upper_ascii_def is_upper_latin_def code_def
          split: if_splits)
qed

lemma colon_lower: "CHR '':'' \<in> set (lower s) \<Longrightarrow> CHR '':'' \<in> set s"
proof -
  assume "CHR '':'' \<in> set (lower s)"
  then obtain x where x: "x \<in> set s" "lower_chr x = CHR '':''"
    by (auto simp: lower_def)
  then show ?thesis using lower_chr_colon by blast
qed

lemma set_strip: "set (strip s) \<subseteq> set s"
proof
  fix x
  assume "x \<in> set (strip s)"
  then have "x \<in> set (dropWhile is_space (rev (dropWhile is_space s)))"
    by (simp add: strip_def)
  then have "x \<in> set (rev (dropWhile is_space s))"
    by (rule set_dropWhileD)
  then have "x \<in> set (dropWhile is_space s)"
    by simp
  then show "x \<in> set s"
    by (rule set_dropWhileD)
qed

lemma startswith_set: "startswith s p \<Longrightarrow> set p \<subseteq> set s"
proof -
  assume "startswith s p"
  then have "p = take (length p) s" by (simp add: startswith_def)
  then show ?thesis using set_take_subset [of "length p" s] by simp
qed

lemma labelled_colon:
  assumes "startswith (strip (lower line)) p" and "CHR '':'' \<in> set p"
  shows "CHR '':'' \<in> set line"
proof -
  have "CHR '':'' \<in> set (strip (lower line))"
    using startswith_set [OF assms(1)] assms(2) by blast
  then have "CHR '':'' \<in> set (lower line)"
    using set_strip by blast
  then show ?thesis by (rule colon_lower)
qed

lemma split1_colon:
  assumes "CHR '':'' \<in> set line"
  shows "\<exists>a b. line = a @ CHR '':'' # b \<and> CHR '':'' \<notin> set a \<and> label_value line = Inr (strip b)"
proof -
  let ?a = "takeWhile (\<lambda>c. c \<noteq> CHR '':'') line"
  let ?r = "dropWhile (\<lambda>c. c \<noteq> CHR '':'') line"
  have r: "?r \<noteq> []" using assms by simp
  then have hd: "hd ?r = CHR '':''" using hd_dropWhile [of "\<lambda>c. c \<noteq> CHR '':''" line] by simp
  have "?r = CHR '':'' # tl ?r" using r hd by (cases ?r) simp_all
  then have "?a @ ?r = ?a @ CHR '':'' # tl ?r" by simp
  then have "line = ?a @ CHR '':'' # tl ?r" by simp
  moreover have "CHR '':'' \<notin> set ?a" by (auto dest: set_takeWhileD)
  moreover have "label_value line = Inr (strip (tl ?r))"
    using assms by (simp add: label_value_def split1_def index_def)
  ultimately show ?thesis by blast
qed

lemma startswith_take2: "startswith s p \<Longrightarrow> 2 \<le> length p \<Longrightarrow> take 2 s = take 2 p"
proof -
  assume a: "startswith s p" "2 \<le> length p"
  have "take 2 p = take 2 (take (length p) s)"
    using a(1) by (simp add: startswith_def)
  also have "\<dots> = take (min 2 (length p)) s"
    by (rule take_take)
  also have "\<dots> = take 2 s"
    using a(2) by (simp add: min_def)
  finally show ?thesis by simp
qed

text \<open>The first two characters tell the five prefixes apart.\<close>

lemma prefixes_apart:
  assumes "startswith s p" and "startswith s q" and "2 \<le> length p" and "2 \<le> length q"
  shows "take 2 p = take 2 q"
  using startswith_take2 [OF assms(1,3)] startswith_take2 [OF assms(2,4)] by simp

lemma prefix_exclusive:
  "\<not> (startswith s ''purpose:'' \<and> startswith s ''author:'')"
  "\<not> (startswith s ''purpose:'' \<and> startswith s ''version:'')"
  "\<not> (startswith s ''purpose:'' \<and> startswith s ''date:'')"
  "\<not> (startswith s ''description:'' \<and> startswith s ''author:'')"
  "\<not> (startswith s ''description:'' \<and> startswith s ''version:'')"
  "\<not> (startswith s ''description:'' \<and> startswith s ''date:'')"
  "\<not> (startswith s ''author:'' \<and> startswith s ''version:'')"
  "\<not> (startswith s ''author:'' \<and> startswith s ''date:'')"
  "\<not> (startswith s ''version:'' \<and> startswith s ''date:'')"
  using prefixes_apart [of s "''purpose:''" "''author:''"]
    prefixes_apart [of s "''purpose:''" "''version:''"]
    prefixes_apart [of s "''purpose:''" "''date:''"]
    prefixes_apart [of s "''description:''" "''author:''"]
    prefixes_apart [of s "''description:''" "''version:''"]
    prefixes_apart [of s "''description:''" "''date:''"]
    prefixes_apart [of s "''author:''" "''version:''"]
    prefixes_apart [of s "''author:''" "''date:''"]
    prefixes_apart [of s "''version:''" "''date:''"]
  by (simp_all, blast+)

lemma has_label_cases:
  "has_label Description line \<longleftrightarrow>
     startswith (strip (lower line)) ''purpose:'' \<or> startswith (strip (lower line)) ''description:''"
  "has_label Author line \<longleftrightarrow> startswith (strip (lower line)) ''author:''"
  "has_label Version line \<longleftrightarrow> startswith (strip (lower line)) ''version:''"
  "has_label Date line \<longleftrightarrow> startswith (strip (lower line)) ''date:''"
  by (simp_all add: has_label_def)

lemma has_label_colon:
  assumes "has_label L line"
  shows "CHR '':'' \<in> set line"
proof -
  obtain p where p: "p \<in> set (prefixes L)" "startswith (strip (lower line)) p"
    using assms by (auto simp: has_label_def)
  have "CHR '':'' \<in> set p" using p(1) by (cases L) auto
  then show ?thesis using labelled_colon p(2) by blast
qed

lemma doc_step_label:
  assumes "has_label L line"
  shows "\<exists>a b. line = a @ CHR '':'' # b \<and> CHR '':'' \<notin> set a
           \<and> doc_step d line = Inr (set_field L (strip b) d)"
proof -
  obtain a b where ab: "line = a @ CHR '':'' # b" "CHR '':'' \<notin> set a"
      "label_value line = Inr (strip b)"
    using split1_colon [OF has_label_colon [OF assms]] by blast
  note excl = prefix_exclusive [of "strip (lower line)"]
  have "doc_step d line = Inr (set_field L (strip b) d)"
  proof (cases L)
    case Description
    then show ?thesis
      using assms ab(3) by (auto simp: has_label_cases doc_step_def Let_def)
  next
    case Author
    then have "startswith (strip (lower line)) ''author:''"
      using assms by (simp add: has_label_cases)
    then show ?thesis
      using excl ab(3) Author by (simp add: doc_step_def Let_def)
  next
    case Version
    then have "startswith (strip (lower line)) ''version:''"
      using assms by (simp add: has_label_cases)
    then show ?thesis
      using excl ab(3) Version by (simp add: doc_step_def Let_def)
  next
    case Date
    then have "startswith (strip (lower line)) ''date:''"
      using assms by (simp add: has_label_cases)
    then show ?thesis
      using excl ab(3) Date by (simp add: doc_step_def Let_def)
  qed
  then show ?thesis using ab by blast
qed

lemma doc_step_no_label:
  assumes "\<forall>L. \<not> has_label L line"
  shows "doc_step d line = Inr d"
proof -
  have "\<not> has_label Description line" "\<not> has_label Author line" "\<not> has_label Version line"
    "\<not> has_label Date line" using assms by blast+
  then show ?thesis by (simp add: has_label_cases doc_step_def Let_def)
qed

lemma doc_step_total: "\<exists>d'. doc_step d line = Inr d'"
  using doc_step_label [of _ line d] doc_step_no_label [of line d] by blast

lemma doc_loop_total: "\<exists>d'. doc_loop ls d = Inr d'"
proof (induction ls arbitrary: d)
  case Nil
  then show ?case by simp
next
  case (Cons l ls)
  obtain d1 where "doc_step d l = Inr d1" using doc_step_total by blast
  then show ?case using Cons.IH [of d1] by simp
qed

lemma extract_documentation_loop:
  "\<exists>d0. doc_loop (comment_lines text)
           \<lparr>description = [], author = [], version = [], date = [],
            comments = comment_lines text\<rparr> = Inr d0
     \<and> extract_documentation text =
         Inr (case comment_blocks text of [] \<Rightarrow> d0 | b # bs \<Rightarrow> d0\<lparr>description := strip b\<rparr>)"
proof -
  obtain d0 where "doc_loop (comment_lines text)
           \<lparr>description = [], author = [], version = [], date = [],
            comments = comment_lines text\<rparr> = Inr d0"
    using doc_loop_total by blast
  then show ?thesis
    by (auto simp: extract_documentation_def split: list.splits)
qed


section \<open>Lemmas on the scanner\<close>

subsection \<open>One file\<close>

lemmas xml_defs = find_below_def findall_below_def find_child_below_def descendants_def
  get_def get_default_def stripped_text_def

text \<open>\<open>_extract_documentation\<close> raises nothing.\<close>

lemma extract_documentation_total: "\<exists>d. extract_documentation text = Inr d"
  using extract_documentation_loop [of "text"] by blast

text \<open>
  The three outcomes of a file function: an exception other than \<open>ParseError\<close> leaves it, a
  \<open>ParseError\<close> is logged and gives \<open>None\<close>, and a document that parses never raises and logs
  nothing.
\<close>

lemma parse_pou_file_cases:
  "parse_pou_file sp f lg =
     (case snd f of
        Unreadable \<Rightarrow> (Inl OSError, lg)
      | Malformed \<Rightarrow> (Inr None, lg @ [(ERROR, XML_parse_error (fst f))])
      | Wellformed root \<Rightarrow> (fst (parse_pou_file sp f []), lg))
   \<and> (\<forall>root. snd f = Wellformed root \<longrightarrow> (\<exists>r. fst (parse_pou_file sp f []) = Inr r))"
proof (cases "snd f")
  case (Wellformed root)
  obtain d where "extract_documentation (stripped_text (find_below ''Declaration'' root)) = Inr d"
    using extract_documentation_total by blast
  then show ?thesis
    using Wellformed by (simp add: parse_pou_file_def Let_def split: option.splits)
qed (simp_all add: parse_pou_file_def)

lemma parse_dut_file_cases:
  "parse_dut_file sp f lg =
     (case snd f of
        Unreadable \<Rightarrow> (Inl OSError, lg)
      | Malformed \<Rightarrow> (Inr None, lg @ [(ERROR, XML_parse_error (fst f))])
      | Wellformed root \<Rightarrow> (fst (parse_dut_file sp f []), lg))
   \<and> (\<forall>root. snd f = Wellformed root \<longrightarrow> (\<exists>r. fst (parse_dut_file sp f []) = Inr r))"
proof (cases "snd f")
  case (Wellformed root)
  obtain d where "extract_documentation (stripped_text (find_below ''Declaration'' root)) = Inr d"
    using extract_documentation_total by blast
  then show ?thesis
    using Wellformed by (simp add: parse_dut_file_def Let_def split: option.splits)
qed (simp_all add: parse_dut_file_def)

lemma parse_gvl_file_cases:
  "parse_gvl_file sp f lg =
     (case snd f of
        Unreadable \<Rightarrow> (Inl OSError, lg)
      | Malformed \<Rightarrow> (Inr None, lg @ [(ERROR, XML_parse_error (fst f))])
      | Wellformed root \<Rightarrow> (fst (parse_gvl_file sp f []), lg))
   \<and> (\<forall>root. snd f = Wellformed root \<longrightarrow> (\<exists>r. fst (parse_gvl_file sp f []) = Inr r))"
proof (cases "snd f")
  case (Wellformed root)
  obtain d where "extract_documentation (stripped_text (find_below ''Declaration'' root)) = Inr d"
    using extract_documentation_total by blast
  then show ?thesis
    using Wellformed by (simp add: parse_gvl_file_def Let_def split: option.splits)
qed (simp_all add: parse_gvl_file_def)

text \<open>The name of the unit of a document that has the element of its kind.\<close>

lemma parse_pou_file_name:
  assumes "snd f = Wellformed root" and "find_below ''POU'' root = Some e"
  shows "\<exists>u. parse_pou_file sp f lg = (Inr (Some u), lg)
           \<and> pou_name u = (case get e ''Name'' of None \<Rightarrow> ''Unknown'' | Some v \<Rightarrow> v)"
proof -
  obtain d where "extract_documentation (stripped_text (find_below ''Declaration'' root)) = Inr d"
    using extract_documentation_total by blast
  then show ?thesis
    using assms by (simp add: parse_pou_file_def Let_def get_default_def)
qed

lemma parse_dut_file_name:
  assumes "snd f = Wellformed root" and "find_below ''DUT'' root = Some e"
  shows "\<exists>u. parse_dut_file sp f lg = (Inr (Some u), lg)
           \<and> dut_name u = (case get e ''Name'' of None \<Rightarrow> ''Unknown'' | Some v \<Rightarrow> v)"
proof -
  obtain d where "extract_documentation (stripped_text (find_below ''Declaration'' root)) = Inr d"
    using extract_documentation_total by blast
  then show ?thesis
    using assms by (simp add: parse_dut_file_def Let_def get_default_def)
qed

lemma parse_gvl_file_name:
  assumes "snd f = Wellformed root" and "find_below ''GVL'' root = Some e"
  shows "\<exists>u. parse_gvl_file sp f lg = (Inr (Some u), lg)
           \<and> gvl_name u = (case get e ''Name'' of None \<Rightarrow> ''Unknown'' | Some v \<Rightarrow> v)"
proof -
  obtain d where "extract_documentation (stripped_text (find_below ''Declaration'' root)) = Inr d"
    using extract_documentation_total by blast
  then show ?thesis
    using assms by (simp add: parse_gvl_file_def Let_def get_default_def)
qed

lemma contribution_skipped:
  assumes "\<And>lg. parse_file f lg =
      (case snd f of
        Unreadable \<Rightarrow> (Inl OSError, lg)
      | Malformed \<Rightarrow> (Inr None, lg @ [(ERROR, XML_parse_error (fst f))])
      | Wellformed root \<Rightarrow> (fst (parse_file f []), lg))"
    and "snd f = Unreadable \<or> snd f = Malformed"
  shows "contribution parse_file f = []"
  using assms(1) [of "[]"] assms(2) by (auto simp: contribution_def)

subsection \<open>The loops over the files\<close>

text \<open>A loop whose file function has the three outcomes above.\<close>

lemma parse_loop_result:
  assumes "\<And>f lg. parse_file f lg =
      (case snd f of
        Unreadable \<Rightarrow> (Inl OSError, lg)
      | Malformed \<Rightarrow> (Inr None, lg @ [(ERROR, XML_parse_error (fst f))])
      | Wellformed root \<Rightarrow> (fst (parse_file f []), lg))
   \<and> (\<forall>root. snd f = Wellformed root \<longrightarrow> (\<exists>r. fst (parse_file f []) = Inr r))"
  shows "parse_loop parse_file kind files (units, lg) =
     (units @ concat (map (contribution parse_file) files),
      lg @ concat (map (logged_errors kind) files))"
proof (induction files arbitrary: units lg)
  case Nil
  then show ?case by simp
next
  case (Cons f files)
  show ?case
  proof (cases "snd f")
    case Unreadable
    then have "parse_file f lg = (Inl OSError, lg)" "parse_file f [] = (Inl OSError, [])"
      using assms [of f lg] assms [of f "[]"] by simp_all
    then show ?thesis
      using Cons.IH Unreadable by (simp add: contribution_def logged_errors_def)
  next
    case Malformed
    then have "parse_file f lg = (Inr None, lg @ [(ERROR, XML_parse_error (fst f))])"
      "fst (parse_file f []) = Inr None"
      using assms [of f lg] assms [of f "[]"] by simp_all
    then show ?thesis
      using Cons.IH Malformed by (simp add: contribution_def logged_errors_def)
  next
    case (Wellformed root)
    then obtain r where r: "fst (parse_file f []) = Inr r"
      using assms [of f "[]"] by blast
    then have "parse_file f lg = (Inr r, lg)"
      using assms [of f lg] Wellformed by simp
    then show ?thesis
      using Cons.IH Wellformed r
      by (cases r) (simp_all add: contribution_def logged_errors_def)
  qed
qed

lemma parse_pous_result:
  "pous (parse_pous st) =
     pous st @ concat (map (contribution (parse_pou_file (sep (project_root st)))) (pou_files st))
   \<and> logged (parse_pous st) =
     logged st @ (INFO, Found_files ''POU'' (length (pou_files st)))
       # concat (map (logged_errors ''POU'') (pou_files st))"
  by (simp add: parse_pous_def
      parse_loop_result [of "parse_pou_file (sep (project_root st))", OF parse_pou_file_cases])

lemma parse_duts_result:
  "duts (parse_duts st) =
     duts st @ concat (map (contribution (parse_dut_file (sep (project_root st)))) (dut_files st))
   \<and> logged (parse_duts st) =
     logged st @ (INFO, Found_files ''DUT'' (length (dut_files st)))
       # concat (map (logged_errors ''DUT'') (dut_files st))"
  by (simp add: parse_duts_def
      parse_loop_result [of "parse_dut_file (sep (project_root st))", OF parse_dut_file_cases])

lemma parse_gvls_result:
  "gvls (parse_gvls st) =
     gvls st @ concat (map (contribution (parse_gvl_file (sep (project_root st)))) (gvl_files st))
   \<and> logged (parse_gvls st) =
     logged st @ (INFO, Found_files ''GVL'' (length (gvl_files st)))
       # concat (map (logged_errors ''GVL'') (gvl_files st))"
  by (simp add: parse_gvls_def
      parse_loop_result [of "parse_gvl_file (sep (project_root st))", OF parse_gvl_file_cases])

subsection \<open>The included files\<close>

lemma includes_loop_result:
  "fst (includes_loop ps (inc, lg)) = inc @ concat (map listed_in ps)"
proof (induction ps arbitrary: inc lg)
  case Nil
  then show ?case by simp
next
  case (Cons p ps)
  then show ?case by (cases "snd p") (simp_all add: listed_in_def)
qed

lemma included_files_init:
  "included_files (init proj) =
     sort (remdups (concat (map listed_in (glob proj ''*.tsproj''))))"
proof -
  obtain inc lg where r: "includes_loop (glob proj ''*.tsproj'') ([], []) = (inc, lg)"
    by (cases "includes_loop (glob proj ''*.tsproj'') ([], [])")
  then have "inc = concat (map listed_in (glob proj ''*.tsproj''))"
    using includes_loop_result [of "glob proj ''*.tsproj''" "[]" "[]"] by simp
  then show ?thesis
    using r by (simp add: init_def get_project_included_files_def)
qed

lemma set_included_files: "set (included_files (init proj)) = listed proj"
  by (simp add: included_files_init listed_def)

lemma included_files_empty: "included_files (init proj) = [] \<longleftrightarrow> listed proj = {}"
  using set_included_files [of proj] by (metis set_empty)

lemma select_files_init:
  "select_files (init proj) pattern =
     (if listed proj = {} then glob proj pattern
      else filter (\<lambda>f. relative_name proj (fst f) \<in> listed proj) (glob proj pattern))"
proof -
  have "project_root (init proj) = proj"
    by (simp add: init_def split: prod.splits)
  then show ?thesis
    using included_files_empty [of proj] set_included_files [of proj]
    by (simp add: select_files_def Let_def)
qed

lemma listed_none:
  "\<forall>f \<in> set (glob proj ''*.tsproj''). snd f = Unreadable \<or> snd f = Malformed \<Longrightarrow>
   listed proj = {}"
  by (auto simp: listed_def listed_in_def split: content.splits)

section \<open>The claims\<close>

text \<open>
  C1. The files of one kind that the scanner takes. The included files are the entries that
  the project files which parse list, their separators normalised. When at least one entry
  is listed, the files of a kind are the files that the pattern of the kind yields whose
  name relative to the project root, written with forward slashes, is listed. When nothing
  is listed, whether there is no project file, none parses, or those that parse list no
  entry, the files of a kind are all the files that the pattern yields. When no project
  file parses, nothing is listed.
\<close>

theorem C1_selected_files:
  "set (included_files (init proj)) = listed proj
   \<and> (listed proj \<noteq> {} \<longrightarrow>
        pou_files (init proj) =
          filter (\<lambda>f. relative_name proj (fst f) \<in> listed proj) (glob proj ''**/*.TcPOU'')
      \<and> dut_files (init proj) =
          filter (\<lambda>f. relative_name proj (fst f) \<in> listed proj) (glob proj ''**/*.TcDUT'')
      \<and> gvl_files (init proj) =
          filter (\<lambda>f. relative_name proj (fst f) \<in> listed proj) (glob proj ''**/*.TcGVL''))
   \<and> (listed proj = {} \<longrightarrow>
        pou_files (init proj) = glob proj ''**/*.TcPOU''
      \<and> dut_files (init proj) = glob proj ''**/*.TcDUT''
      \<and> gvl_files (init proj) = glob proj ''**/*.TcGVL'')
   \<and> ((\<forall>f \<in> set (glob proj ''*.tsproj''). snd f = Unreadable \<or> snd f = Malformed) \<longrightarrow>
        listed proj = {})"
  using listed_none [of proj]
  by (simp add: set_included_files pou_files_def dut_files_def gvl_files_def select_files_init)

theorem C1_selected_files_witness:
  "listed \<lparr>sep = CHR ''/'', glob = no_files (''*.tsproj'' := [([''Demo.tsproj''], Wellformed (Element ''Project'' [] None [Element ''ItemGroup'' [] None [Element msbuild_compile [(''Include'', [CHR ''P'', CHR ''O'', CHR ''U'', CHR ''s'', backslash, CHR ''A'', CHR ''.'', CHR ''T'', CHR ''c'', CHR ''P'', CHR ''O'', CHR ''U''])] None []]]))], ''**/*.TcPOU'' := [([''POUs'', ''A.TcPOU''], Unreadable), ([''POUs'', ''B.TcPOU''], Unreadable), ([''POUs'', ''C.TcPOU''], Unreadable)])\<rparr> = {''POUs/A.TcPOU''}
   \<and> map fst (pou_files (init \<lparr>sep = CHR ''/'', glob = no_files (''*.tsproj'' := [([''Demo.tsproj''], Wellformed (Element ''Project'' [] None [Element ''ItemGroup'' [] None [Element msbuild_compile [(''Include'', [CHR ''P'', CHR ''O'', CHR ''U'', CHR ''s'', backslash, CHR ''A'', CHR ''.'', CHR ''T'', CHR ''c'', CHR ''P'', CHR ''O'', CHR ''U''])] None []]]))], ''**/*.TcPOU'' := [([''POUs'', ''A.TcPOU''], Unreadable), ([''POUs'', ''B.TcPOU''], Unreadable), ([''POUs'', ''C.TcPOU''], Unreadable)])\<rparr>)) = [[''POUs'', ''A.TcPOU'']]
   \<and> snd ([''Demo.tsproj''], Malformed) = Malformed
   \<and> listed \<lparr>sep = CHR ''/'', glob = no_files (''*.tsproj'' := [([''Demo.tsproj''], Malformed)], ''**/*.TcPOU'' := [([''POUs'', ''A.TcPOU''], Unreadable), ([''POUs'', ''B.TcPOU''], Unreadable), ([''POUs'', ''C.TcPOU''], Unreadable)])\<rparr> = {}
   \<and> map fst (pou_files (init \<lparr>sep = CHR ''/'', glob = no_files (''*.tsproj'' := [([''Demo.tsproj''], Malformed)], ''**/*.TcPOU'' := [([''POUs'', ''A.TcPOU''], Unreadable), ([''POUs'', ''B.TcPOU''], Unreadable), ([''POUs'', ''C.TcPOU''], Unreadable)])\<rparr>)) =
       [[''POUs'', ''A.TcPOU''], [''POUs'', ''B.TcPOU''], [''POUs'', ''C.TcPOU'']]"
proof -
  note th1 = C1_selected_files [of "\<lparr>sep = CHR ''/'', glob = no_files (''*.tsproj'' := [([''Demo.tsproj''], Wellformed (Element ''Project'' [] None [Element ''ItemGroup'' [] None [Element msbuild_compile [(''Include'', [CHR ''P'', CHR ''O'', CHR ''U'', CHR ''s'', backslash, CHR ''A'', CHR ''.'', CHR ''T'', CHR ''c'', CHR ''P'', CHR ''O'', CHR ''U''])] None []]]))], ''**/*.TcPOU'' := [([''POUs'', ''A.TcPOU''], Unreadable), ([''POUs'', ''B.TcPOU''], Unreadable), ([''POUs'', ''C.TcPOU''], Unreadable)])\<rparr>"]
  note th2 = C1_selected_files [of "\<lparr>sep = CHR ''/'', glob = no_files (''*.tsproj'' := [([''Demo.tsproj''], Malformed)], ''**/*.TcPOU'' := [([''POUs'', ''A.TcPOU''], Unreadable), ([''POUs'', ''B.TcPOU''], Unreadable), ([''POUs'', ''C.TcPOU''], Unreadable)])\<rparr>"]
  have 1: "listed \<lparr>sep = CHR ''/'', glob = no_files (''*.tsproj'' := [([''Demo.tsproj''], Wellformed (Element ''Project'' [] None [Element ''ItemGroup'' [] None [Element msbuild_compile [(''Include'', [CHR ''P'', CHR ''O'', CHR ''U'', CHR ''s'', backslash, CHR ''A'', CHR ''.'', CHR ''T'', CHR ''c'', CHR ''P'', CHR ''O'', CHR ''U''])] None []]]))], ''**/*.TcPOU'' := [([''POUs'', ''A.TcPOU''], Unreadable), ([''POUs'', ''B.TcPOU''], Unreadable), ([''POUs'', ''C.TcPOU''], Unreadable)])\<rparr> = {''POUs/A.TcPOU''}"
    by (simp add: listed_def listed_in_def manifest_includes_def include_of_def
        msbuild_compile_def xml_defs no_files_def replace_chr_def backslash_def)
  have 2: "map fst (pou_files (init \<lparr>sep = CHR ''/'', glob = no_files (''*.tsproj'' := [([''Demo.tsproj''], Wellformed (Element ''Project'' [] None [Element ''ItemGroup'' [] None [Element msbuild_compile [(''Include'', [CHR ''P'', CHR ''O'', CHR ''U'', CHR ''s'', backslash, CHR ''A'', CHR ''.'', CHR ''T'', CHR ''c'', CHR ''P'', CHR ''O'', CHR ''U''])] None []]]))], ''**/*.TcPOU'' := [([''POUs'', ''A.TcPOU''], Unreadable), ([''POUs'', ''B.TcPOU''], Unreadable), ([''POUs'', ''C.TcPOU''], Unreadable)])\<rparr>)) = [[''POUs'', ''A.TcPOU'']]"
    using th1 [THEN conjunct2, THEN conjunct1] 1
    by (simp add: no_files_def relative_name_def replace_chr_def backslash_def)
  have 3: "listed \<lparr>sep = CHR ''/'', glob = no_files (''*.tsproj'' := [([''Demo.tsproj''], Malformed)], ''**/*.TcPOU'' := [([''POUs'', ''A.TcPOU''], Unreadable), ([''POUs'', ''B.TcPOU''], Unreadable), ([''POUs'', ''C.TcPOU''], Unreadable)])\<rparr> = {}"
    using th2 [THEN conjunct2, THEN conjunct2, THEN conjunct2] by (simp add: no_files_def)
  have 4: "map fst (pou_files (init \<lparr>sep = CHR ''/'', glob = no_files (''*.tsproj'' := [([''Demo.tsproj''], Malformed)], ''**/*.TcPOU'' := [([''POUs'', ''A.TcPOU''], Unreadable), ([''POUs'', ''B.TcPOU''], Unreadable), ([''POUs'', ''C.TcPOU''], Unreadable)])\<rparr>)) =
       [[''POUs'', ''A.TcPOU''], [''POUs'', ''B.TcPOU''], [''POUs'', ''C.TcPOU'']]"
    using th2 [THEN conjunct2, THEN conjunct2, THEN conjunct1] 3 by (simp add: no_files_def)
  show ?thesis
    using 1 2 3 4 by simp
qed

text \<open>
  A project file that is present and parses, and lists no entry, does not filter: the POU
  file on disk is taken, although the intersection with the listed files is empty.
\<close>

theorem C1_manifest_without_entries:
  "map fst (glob \<lparr>sep = CHR ''/'',
       glob = no_files
         (''*.tsproj'' := [([''Demo.tsproj''],
             Wellformed (Element ''TcSmProject'' [] None [Element ''Project'' [] None []]))],
          ''**/*.TcPOU'' := [([''POUs'', ''MAIN.TcPOU''],
             Wellformed (Element ''TcPlcObject'' [] None
               [Element ''POU'' [(''Name'', ''MAIN'')] None []]))])\<rparr> ''*.tsproj'') =
     [[''Demo.tsproj'']]
   \<and> listed \<lparr>sep = CHR ''/'',
       glob = no_files
         (''*.tsproj'' := [([''Demo.tsproj''],
             Wellformed (Element ''TcSmProject'' [] None [Element ''Project'' [] None []]))],
          ''**/*.TcPOU'' := [([''POUs'', ''MAIN.TcPOU''],
             Wellformed (Element ''TcPlcObject'' [] None
               [Element ''POU'' [(''Name'', ''MAIN'')] None []]))])\<rparr> = {}
   \<and> map fst (pou_files (init \<lparr>sep = CHR ''/'',
       glob = no_files
         (''*.tsproj'' := [([''Demo.tsproj''],
             Wellformed (Element ''TcSmProject'' [] None [Element ''Project'' [] None []]))],
          ''**/*.TcPOU'' := [([''POUs'', ''MAIN.TcPOU''],
             Wellformed (Element ''TcPlcObject'' [] None
               [Element ''POU'' [(''Name'', ''MAIN'')] None []]))])\<rparr>)) =
     [[''POUs'', ''MAIN.TcPOU'']]"
  by (simp add: pou_files_def select_files_init listed_def listed_in_def manifest_includes_def
      msbuild_compile_def xml_defs no_files_def)

text \<open>
  C2. The fields come from the input blocks, then the output blocks, then the local blocks,
  and no declaration is taken by more than one of the three passes. The code misses the
  second part: the pattern of the local blocks, \<open>VAR(?:\s|$)(.*?)END_VAR\<close>, also matches the
  \<open>VAR\<close> at the end of an \<open>END_VAR\<close>, so that on a function block with an input, an output
  and a local block the third pass takes the output block again, and its variable \<open>b\<close> is
  returned twice.
\<close>

theorem C2_output_block_taken_twice:
  "extract_variables
     ''FUNCTION_BLOCK FB\<newline>VAR_INPUT\<newline>  a : INT;\<newline>END_VAR\<newline>VAR_OUTPUT\<newline>  b : INT;\<newline>END_VAR\<newline>VAR\<newline>  c : INT;\<newline>END_VAR''
     False =
   [\<lparr>var_name = ''a'', var_type = ''INT'', var_default = [], var_comment = []\<rparr>,
    \<lparr>var_name = ''b'', var_type = ''INT'', var_default = [], var_comment = []\<rparr>,
    \<lparr>var_name = ''b'', var_type = ''INT'', var_default = [], var_comment = []\<rparr>,
    \<lparr>var_name = ''c'', var_type = ''INT'', var_default = [], var_comment = []\<rparr>]"
  by (simp add: variables_defs string_defs class_defs)

text \<open>
  C3. In an input block the line \<open>nCount : DINT := 10; // counter\<close> gives the field \<open>nCount\<close>
  of type \<open>DINT\<close> with the default \<open>10\<close> and the comment \<open>counter\<close>. The code misses it when
  a comment line that ends with a colon stands before the declaration: the pattern is not
  held to one line, the \<open>\s*\<close> after its colon runs over the line break, so that the word
  before the colon of the comment is taken for the name and the name of the declaration
  for the type, and the declaration itself gives no field.
\<close>

theorem C3_comment_line_taken_for_declaration:
  "extract_variables
     ''FUNCTION_BLOCK FB_Counter\<newline>VAR_INPUT\<newline>    // Inputs:\<newline>    nCount : DINT := 10; // counter\<newline>END_VAR''
     False =
   [\<lparr>var_name = ''Inputs'', var_type = ''nCount'', var_default = [], var_comment = []\<rparr>]"
  by (simp add: variables_defs string_defs class_defs)



text \<open>
  C5. Each line comment is tested against the label prefixes, and a line \<open>Author: Jane Doe\<close>
  with no later author line gives the author \<open>Jane Doe\<close>. The code misses it after an empty
  comment line: the \<open>\s*\<close> of the pattern \<open>//\s*(.*)\<close> runs over the line break, so that the
  captured text is the whole next line with its \<open>//\<close>, which begins with no label. In a
  header with empty comment lines before the author and the version, both stay empty.
\<close>

theorem C5_empty_comment_line_takes_next:
  "extract_documentation
     ''//\<newline>// Author: Jane Doe\<newline>//\<newline>// Version: 1.0\<newline>PROGRAM MAIN'' =
   Inr \<lparr>description = [], author = [], version = [], date = [],
        comments = [''// Author: Jane Doe'', ''// Version: 1.0'']\<rparr>"
  by (simp add: documentation_defs string_defs class_defs)

text \<open>
  C6. A match whose name is empty or is one of the region keywords \<open>VAR_INPUT\<close>,
  \<open>VAR_OUTPUT\<close>, \<open>VAR\<close>, \<open>VAR_GLOBAL\<close>, \<open>END_VAR\<close> is dropped. The list of the code leaves
  \<open>VAR_GLOBAL\<close> out: in a global variable list, a declaration of that name is returned.
\<close>

theorem C6_var_global_returned:
  "extract_variables ''VAR_GLOBAL\<newline>  VAR_GLOBAL : INT;\<newline>END_VAR'' True =
   [\<lparr>var_name = ''VAR_GLOBAL'', var_type = ''INT'', var_default = [], var_comment = []\<rparr>]"
  by (simp add: variables_defs string_defs class_defs)

text \<open>
  C7. The name of a unit. For a document that has the element of its kind (\<open>POU\<close>, \<open>DUT\<close> or
  \<open>GVL\<close>), the file function returns a unit and logs nothing, and the name of the unit is
  the value of the attribute \<open>Name\<close> of the first such element when the attribute is there,
  and \<open>Unknown\<close> when it is absent.
\<close>

theorem C7_unit_name:
  "(snd f = Wellformed root \<and> find_below ''POU'' root = Some e1 \<longrightarrow>
      (\<exists>u. parse_pou_file sp f lg = (Inr (Some u), lg)
          \<and> pou_name u = (case get e1 ''Name'' of None \<Rightarrow> ''Unknown'' | Some v \<Rightarrow> v)))
   \<and> (snd f = Wellformed root \<and> find_below ''DUT'' root = Some e2 \<longrightarrow>
      (\<exists>u. parse_dut_file sp f lg = (Inr (Some u), lg)
          \<and> dut_name u = (case get e2 ''Name'' of None \<Rightarrow> ''Unknown'' | Some v \<Rightarrow> v)))
   \<and> (snd f = Wellformed root \<and> find_below ''GVL'' root = Some e3 \<longrightarrow>
      (\<exists>u. parse_gvl_file sp f lg = (Inr (Some u), lg)
          \<and> gvl_name u = (case get e3 ''Name'' of None \<Rightarrow> ''Unknown'' | Some v \<Rightarrow> v)))"
  using parse_pou_file_name [of f root e1 sp lg] parse_dut_file_name [of f root e2 sp lg]
    parse_gvl_file_name [of f root e3 sp lg]
  by blast

theorem C7_unit_name_witness:
  "snd ([''Units.xml''], Wellformed (Element ''TcPlcObject'' [] None [Element ''POU'' [] None [], Element ''DUT'' [(''Name'', ''ST_A'')] None [], Element ''GVL'' [(''Name'', ''GVL_Main'')] None []])) = Wellformed (Element ''TcPlcObject'' [] None [Element ''POU'' [] None [], Element ''DUT'' [(''Name'', ''ST_A'')] None [], Element ''GVL'' [(''Name'', ''GVL_Main'')] None []])
   \<and> find_below ''POU'' (Element ''TcPlcObject'' [] None [Element ''POU'' [] None [], Element ''DUT'' [(''Name'', ''ST_A'')] None [], Element ''GVL'' [(''Name'', ''GVL_Main'')] None []]) = Some (Element ''POU'' [] None [])
   \<and> (\<exists>u. parse_pou_file CHR ''/'' ([''Units.xml''], Wellformed (Element ''TcPlcObject'' [] None [Element ''POU'' [] None [], Element ''DUT'' [(''Name'', ''ST_A'')] None [], Element ''GVL'' [(''Name'', ''GVL_Main'')] None []])) [] = (Inr (Some u), []) \<and> pou_name u = ''Unknown'')
   \<and> find_below ''DUT'' (Element ''TcPlcObject'' [] None [Element ''POU'' [] None [], Element ''DUT'' [(''Name'', ''ST_A'')] None [], Element ''GVL'' [(''Name'', ''GVL_Main'')] None []]) = Some (Element ''DUT'' [(''Name'', ''ST_A'')] None [])
   \<and> (\<exists>u. parse_dut_file CHR ''/'' ([''Units.xml''], Wellformed (Element ''TcPlcObject'' [] None [Element ''POU'' [] None [], Element ''DUT'' [(''Name'', ''ST_A'')] None [], Element ''GVL'' [(''Name'', ''GVL_Main'')] None []])) [] = (Inr (Some u), []) \<and> dut_name u = ''ST_A'')
   \<and> find_below ''GVL'' (Element ''TcPlcObject'' [] None [Element ''POU'' [] None [], Element ''DUT'' [(''Name'', ''ST_A'')] None [], Element ''GVL'' [(''Name'', ''GVL_Main'')] None []]) = Some (Element ''GVL'' [(''Name'', ''GVL_Main'')] None [])
   \<and> (\<exists>u. parse_gvl_file CHR ''/'' ([''Units.xml''], Wellformed (Element ''TcPlcObject'' [] None [Element ''POU'' [] None [], Element ''DUT'' [(''Name'', ''ST_A'')] None [], Element ''GVL'' [(''Name'', ''GVL_Main'')] None []])) [] = (Inr (Some u), []) \<and> gvl_name u = ''GVL_Main'')"
proof -
  note th = C7_unit_name [of "([''Units.xml''], Wellformed (Element ''TcPlcObject'' [] None [Element ''POU'' [] None [], Element ''DUT'' [(''Name'', ''ST_A'')] None [], Element ''GVL'' [(''Name'', ''GVL_Main'')] None []]))" "(Element ''TcPlcObject'' [] None [Element ''POU'' [] None [], Element ''DUT'' [(''Name'', ''ST_A'')] None [], Element ''GVL'' [(''Name'', ''GVL_Main'')] None []])" "Element ''POU'' [] None []" "CHR ''/''" "[]"
      "Element ''DUT'' [(''Name'', ''ST_A'')] None []"
      "Element ''GVL'' [(''Name'', ''GVL_Main'')] None []"]
  have 0: "snd ([''Units.xml''], Wellformed (Element ''TcPlcObject'' [] None [Element ''POU'' [] None [], Element ''DUT'' [(''Name'', ''ST_A'')] None [], Element ''GVL'' [(''Name'', ''GVL_Main'')] None []])) = Wellformed (Element ''TcPlcObject'' [] None [Element ''POU'' [] None [], Element ''DUT'' [(''Name'', ''ST_A'')] None [], Element ''GVL'' [(''Name'', ''GVL_Main'')] None []])"
    by simp
  have 1: "find_below ''POU'' (Element ''TcPlcObject'' [] None [Element ''POU'' [] None [], Element ''DUT'' [(''Name'', ''ST_A'')] None [], Element ''GVL'' [(''Name'', ''GVL_Main'')] None []]) = Some (Element ''POU'' [] None [])"
    by (simp add: xml_defs)
  have 2: "find_below ''DUT'' (Element ''TcPlcObject'' [] None [Element ''POU'' [] None [], Element ''DUT'' [(''Name'', ''ST_A'')] None [], Element ''GVL'' [(''Name'', ''GVL_Main'')] None []]) = Some (Element ''DUT'' [(''Name'', ''ST_A'')] None [])"
    by (simp add: xml_defs)
  have 3: "find_below ''GVL'' (Element ''TcPlcObject'' [] None [Element ''POU'' [] None [], Element ''DUT'' [(''Name'', ''ST_A'')] None [], Element ''GVL'' [(''Name'', ''GVL_Main'')] None []]) = Some (Element ''GVL'' [(''Name'', ''GVL_Main'')] None [])"
    by (simp add: xml_defs)
  have 4: "\<exists>u. parse_pou_file CHR ''/'' ([''Units.xml''], Wellformed (Element ''TcPlcObject'' [] None [Element ''POU'' [] None [], Element ''DUT'' [(''Name'', ''ST_A'')] None [], Element ''GVL'' [(''Name'', ''GVL_Main'')] None []])) [] = (Inr (Some u), []) \<and> pou_name u = ''Unknown''"
    using th [THEN conjunct1] 0 1 by (simp add: get_def)
  have 5: "\<exists>u. parse_dut_file CHR ''/'' ([''Units.xml''], Wellformed (Element ''TcPlcObject'' [] None [Element ''POU'' [] None [], Element ''DUT'' [(''Name'', ''ST_A'')] None [], Element ''GVL'' [(''Name'', ''GVL_Main'')] None []])) [] = (Inr (Some u), []) \<and> dut_name u = ''ST_A''"
    using th [THEN conjunct2, THEN conjunct1] 0 2 by (simp add: get_def)
  have 6: "\<exists>u. parse_gvl_file CHR ''/'' ([''Units.xml''], Wellformed (Element ''TcPlcObject'' [] None [Element ''POU'' [] None [], Element ''DUT'' [(''Name'', ''ST_A'')] None [], Element ''GVL'' [(''Name'', ''GVL_Main'')] None []])) [] = (Inr (Some u), []) \<and> gvl_name u = ''GVL_Main''"
    using th [THEN conjunct2, THEN conjunct2] 0 3 by (simp add: get_def)
  show ?thesis
    using 0 1 2 3 4 5 6 by blast
qed

text \<open>
  The name can be empty: an attribute \<open>Name\<close> that is there and empty is kept as it is.
\<close>

theorem C7_empty_name:
  "parse_pou_file CHR ''/''
     ([''MAIN.TcPOU''],
      Wellformed (Element ''TcPlcObject'' [] None
        [Element ''POU'' [(''Name'', [])] None
          [Element ''Declaration'' [] (Some ''PROGRAM MAIN'') []]])) [] =
   (Inr (Some \<lparr>pou_name = [], pou_type = ''PROGRAM'', pou_file_path = ''MAIN.TcPOU'',
               pou_description = [], pou_author = [], pou_version = [], pou_date = [],
               pou_variables = [], pou_implementation = [], pou_comments = []\<rparr>), [])"
  by (simp add: parse_pou_file_def xml_defs documentation_defs variables_defs string_defs
      class_defs)

text \<open>
  C8. The files of one kind are independent. After the loop over the files of a kind, the
  list of the kind has gained what each file gives by itself, in the order of the files,
  and the log has gained the count of the files and the errors of each file, so that no
  file changes what another one gives. A file that cannot be read or is not well-formed
  gives no unit, and its error is logged: by the loop for an exception that leaves the
  file function, by the file function for a \<open>ParseError\<close>. A document without the element
  of its kind gives no unit either, and nothing is logged for it.
\<close>

theorem C8_files_independent:
  "pous (parse_pous st) =
     pous st @ concat (map (contribution (parse_pou_file (sep (project_root st)))) (pou_files st))
   \<and> logged (parse_pous st) =
     logged st @ (INFO, Found_files ''POU'' (length (pou_files st)))
       # concat (map (logged_errors ''POU'') (pou_files st))
   \<and> duts (parse_duts st) =
     duts st @ concat (map (contribution (parse_dut_file (sep (project_root st)))) (dut_files st))
   \<and> logged (parse_duts st) =
     logged st @ (INFO, Found_files ''DUT'' (length (dut_files st)))
       # concat (map (logged_errors ''DUT'') (dut_files st))
   \<and> gvls (parse_gvls st) =
     gvls st @ concat (map (contribution (parse_gvl_file (sep (project_root st)))) (gvl_files st))
   \<and> logged (parse_gvls st) =
     logged st @ (INFO, Found_files ''GVL'' (length (gvl_files st)))
       # concat (map (logged_errors ''GVL'') (gvl_files st))
   \<and> (snd f = Unreadable \<or> snd f = Malformed \<longrightarrow>
        contribution (parse_pou_file sp) f = [] \<and> contribution (parse_dut_file sp) f = []
        \<and> contribution (parse_gvl_file sp) f = [])
   \<and> (snd f = Wellformed root \<and> find_below ''POU'' root = None \<longrightarrow>
        contribution (parse_pou_file sp) f = [] \<and> logged_errors ''POU'' f = [])
   \<and> (snd f = Wellformed root \<and> find_below ''DUT'' root = None \<longrightarrow>
        contribution (parse_dut_file sp) f = [] \<and> logged_errors ''DUT'' f = [])
   \<and> (snd f = Wellformed root \<and> find_below ''GVL'' root = None \<longrightarrow>
        contribution (parse_gvl_file sp) f = [] \<and> logged_errors ''GVL'' f = [])"
proof -
  have bad: "contribution (parse_pou_file sp) f = [] \<and> contribution (parse_dut_file sp) f = []
        \<and> contribution (parse_gvl_file sp) f = []" if a: "snd f = Unreadable \<or> snd f = Malformed"
  proof (intro conjI)
    show "contribution (parse_pou_file sp) f = []"
      by (rule contribution_skipped [OF _ a]) (simp add: parse_pou_file_cases)
    show "contribution (parse_dut_file sp) f = []"
      by (rule contribution_skipped [OF _ a]) (simp add: parse_dut_file_cases)
    show "contribution (parse_gvl_file sp) f = []"
      by (rule contribution_skipped [OF _ a]) (simp add: parse_gvl_file_cases)
  qed
  have pou: "contribution (parse_pou_file sp) f = [] \<and> logged_errors ''POU'' f = []"
    if "snd f = Wellformed root \<and> find_below ''POU'' root = None"
    using that by (simp add: contribution_def logged_errors_def parse_pou_file_def)
  have dut: "contribution (parse_dut_file sp) f = [] \<and> logged_errors ''DUT'' f = []"
    if "snd f = Wellformed root \<and> find_below ''DUT'' root = None"
    using that by (simp add: contribution_def logged_errors_def parse_dut_file_def)
  have gvl: "contribution (parse_gvl_file sp) f = [] \<and> logged_errors ''GVL'' f = []"
    if "snd f = Wellformed root \<and> find_below ''GVL'' root = None"
    using that by (simp add: contribution_def logged_errors_def parse_gvl_file_def)
  show ?thesis
    using parse_pous_result [of st] parse_duts_result [of st] parse_gvls_result [of st]
      bad pou dut gvl
    by blast
qed

theorem C8_files_independent_witness:
  "map pou_name (pous (parse_pous (init \<lparr>sep = CHR ''/'', glob = no_files (''**/*.TcPOU'' := [([''MAIN.TcPOU''], Wellformed (Element ''TcPlcObject'' [] None [Element ''POU'' [(''Name'', ''MAIN'')] None []])), ([''Broken.TcPOU''], Malformed), ([''Empty.TcPOU''], Wellformed (Element ''TcPlcObject'' [] None [])), ([''Dir.TcPOU''], Unreadable), ([''FB_Motor.TcPOU''], Wellformed (Element ''TcPlcObject'' [] None [Element ''POU'' [(''Name'', ''FB_Motor''), (''SpecialFunc'', ''None'')] None []]))])\<rparr>))) = [''MAIN'', ''FB_Motor'']
   \<and> logged (parse_pous (init \<lparr>sep = CHR ''/'', glob = no_files (''**/*.TcPOU'' := [([''MAIN.TcPOU''], Wellformed (Element ''TcPlcObject'' [] None [Element ''POU'' [(''Name'', ''MAIN'')] None []])), ([''Broken.TcPOU''], Malformed), ([''Empty.TcPOU''], Wellformed (Element ''TcPlcObject'' [] None [])), ([''Dir.TcPOU''], Unreadable), ([''FB_Motor.TcPOU''], Wellformed (Element ''TcPlcObject'' [] None [Element ''POU'' [(''Name'', ''FB_Motor''), (''SpecialFunc'', ''None'')] None []]))])\<rparr>)) =
       [(INFO, Found_files ''POU'' 5), (ERROR, XML_parse_error [''Broken.TcPOU'']),
        (ERROR, Error_parsing_file ''POU'' [''Dir.TcPOU''] OSError)]
   \<and> snd ([''Broken.TcPOU''], Malformed) = Malformed
   \<and> contribution (parse_pou_file CHR ''/'') ([''Broken.TcPOU''], Malformed) = []
   \<and> snd ([''Empty.TcPOU''], Wellformed (Element ''TcPlcObject'' [] None [])) = Wellformed (Element ''TcPlcObject'' [] None [])
   \<and> find_below ''POU'' (Element ''TcPlcObject'' [] None []) = None
   \<and> contribution (parse_pou_file CHR ''/'') ([''Empty.TcPOU''], Wellformed (Element ''TcPlcObject'' [] None [])) = []
   \<and> logged_errors ''POU'' ([''Empty.TcPOU''], Wellformed (Element ''TcPlcObject'' [] None [])) = []"
proof -
  note th1 = C8_files_independent [of "init \<lparr>sep = CHR ''/'', glob = no_files (''**/*.TcPOU'' := [([''MAIN.TcPOU''], Wellformed (Element ''TcPlcObject'' [] None [Element ''POU'' [(''Name'', ''MAIN'')] None []])), ([''Broken.TcPOU''], Malformed), ([''Empty.TcPOU''], Wellformed (Element ''TcPlcObject'' [] None [])), ([''Dir.TcPOU''], Unreadable), ([''FB_Motor.TcPOU''], Wellformed (Element ''TcPlcObject'' [] None [Element ''POU'' [(''Name'', ''FB_Motor''), (''SpecialFunc'', ''None'')] None []]))])\<rparr>" "([''Broken.TcPOU''], Malformed)" "CHR ''/''"]
  note th2 = C8_files_independent [of "init \<lparr>sep = CHR ''/'', glob = no_files (''**/*.TcPOU'' := [([''MAIN.TcPOU''], Wellformed (Element ''TcPlcObject'' [] None [Element ''POU'' [(''Name'', ''MAIN'')] None []])), ([''Broken.TcPOU''], Malformed), ([''Empty.TcPOU''], Wellformed (Element ''TcPlcObject'' [] None [])), ([''Dir.TcPOU''], Unreadable), ([''FB_Motor.TcPOU''], Wellformed (Element ''TcPlcObject'' [] None [Element ''POU'' [(''Name'', ''FB_Motor''), (''SpecialFunc'', ''None'')] None []]))])\<rparr>" "([''Empty.TcPOU''], Wellformed (Element ''TcPlcObject'' [] None []))" "CHR ''/''"
      "Element ''TcPlcObject'' [] None []"]
  have st: "pous (init \<lparr>sep = CHR ''/'', glob = no_files (''**/*.TcPOU'' := [([''MAIN.TcPOU''], Wellformed (Element ''TcPlcObject'' [] None [Element ''POU'' [(''Name'', ''MAIN'')] None []])), ([''Broken.TcPOU''], Malformed), ([''Empty.TcPOU''], Wellformed (Element ''TcPlcObject'' [] None [])), ([''Dir.TcPOU''], Unreadable), ([''FB_Motor.TcPOU''], Wellformed (Element ''TcPlcObject'' [] None [Element ''POU'' [(''Name'', ''FB_Motor''), (''SpecialFunc'', ''None'')] None []]))])\<rparr>) = []" "logged (init \<lparr>sep = CHR ''/'', glob = no_files (''**/*.TcPOU'' := [([''MAIN.TcPOU''], Wellformed (Element ''TcPlcObject'' [] None [Element ''POU'' [(''Name'', ''MAIN'')] None []])), ([''Broken.TcPOU''], Malformed), ([''Empty.TcPOU''], Wellformed (Element ''TcPlcObject'' [] None [])), ([''Dir.TcPOU''], Unreadable), ([''FB_Motor.TcPOU''], Wellformed (Element ''TcPlcObject'' [] None [Element ''POU'' [(''Name'', ''FB_Motor''), (''SpecialFunc'', ''None'')] None []]))])\<rparr>) = []" "sep (project_root (init \<lparr>sep = CHR ''/'', glob = no_files (''**/*.TcPOU'' := [([''MAIN.TcPOU''], Wellformed (Element ''TcPlcObject'' [] None [Element ''POU'' [(''Name'', ''MAIN'')] None []])), ([''Broken.TcPOU''], Malformed), ([''Empty.TcPOU''], Wellformed (Element ''TcPlcObject'' [] None [])), ([''Dir.TcPOU''], Unreadable), ([''FB_Motor.TcPOU''], Wellformed (Element ''TcPlcObject'' [] None [Element ''POU'' [(''Name'', ''FB_Motor''), (''SpecialFunc'', ''None'')] None []]))])\<rparr>)) = CHR ''/''"
    "pou_files (init \<lparr>sep = CHR ''/'', glob = no_files (''**/*.TcPOU'' := [([''MAIN.TcPOU''], Wellformed (Element ''TcPlcObject'' [] None [Element ''POU'' [(''Name'', ''MAIN'')] None []])), ([''Broken.TcPOU''], Malformed), ([''Empty.TcPOU''], Wellformed (Element ''TcPlcObject'' [] None [])), ([''Dir.TcPOU''], Unreadable), ([''FB_Motor.TcPOU''], Wellformed (Element ''TcPlcObject'' [] None [Element ''POU'' [(''Name'', ''FB_Motor''), (''SpecialFunc'', ''None'')] None []]))])\<rparr>) = [([''MAIN.TcPOU''], Wellformed (Element ''TcPlcObject'' [] None [Element ''POU'' [(''Name'', ''MAIN'')] None []])), ([''Broken.TcPOU''], Malformed), ([''Empty.TcPOU''], Wellformed (Element ''TcPlcObject'' [] None [])), ([''Dir.TcPOU''], Unreadable), ([''FB_Motor.TcPOU''], Wellformed (Element ''TcPlcObject'' [] None [Element ''POU'' [(''Name'', ''FB_Motor''), (''SpecialFunc'', ''None'')] None []]))]"
    by (simp_all add: init_def get_project_included_files_def pou_files_def select_files_def
        no_files_def)
  have c: "map pou_name (contribution (parse_pou_file CHR ''/'') ([''MAIN.TcPOU''], Wellformed (Element ''TcPlcObject'' [] None [Element ''POU'' [(''Name'', ''MAIN'')] None []]))) = [''MAIN'']"
    "contribution (parse_pou_file CHR ''/'') ([''Dir.TcPOU''], Unreadable) = []"
    "map pou_name (contribution (parse_pou_file CHR ''/'') ([''FB_Motor.TcPOU''], Wellformed (Element ''TcPlcObject'' [] None [Element ''POU'' [(''Name'', ''FB_Motor''), (''SpecialFunc'', ''None'')] None []]))) = [''FB_Motor'']"
    by (simp_all add: contribution_def parse_pou_file_def xml_defs documentation_defs
        string_defs class_defs)
  have 1: "snd ([''Broken.TcPOU''], Malformed) = Malformed"
    by simp
  have 2: "contribution (parse_pou_file CHR ''/'') ([''Broken.TcPOU''], Malformed) = []"
    using th1 1 by blast
  have 3: "snd ([''Empty.TcPOU''], Wellformed (Element ''TcPlcObject'' [] None [])) = Wellformed (Element ''TcPlcObject'' [] None [])"
    by simp
  have 4: "find_below ''POU'' (Element ''TcPlcObject'' [] None []) = None"
    by (simp add: xml_defs)
  have 5: "contribution (parse_pou_file CHR ''/'') ([''Empty.TcPOU''], Wellformed (Element ''TcPlcObject'' [] None [])) = [] \<and> logged_errors ''POU'' ([''Empty.TcPOU''], Wellformed (Element ''TcPlcObject'' [] None [])) = []"
    using th2 3 4 by blast
  have 6: "map pou_name (pous (parse_pous (init \<lparr>sep = CHR ''/'', glob = no_files (''**/*.TcPOU'' := [([''MAIN.TcPOU''], Wellformed (Element ''TcPlcObject'' [] None [Element ''POU'' [(''Name'', ''MAIN'')] None []])), ([''Broken.TcPOU''], Malformed), ([''Empty.TcPOU''], Wellformed (Element ''TcPlcObject'' [] None [])), ([''Dir.TcPOU''], Unreadable), ([''FB_Motor.TcPOU''], Wellformed (Element ''TcPlcObject'' [] None [Element ''POU'' [(''Name'', ''FB_Motor''), (''SpecialFunc'', ''None'')] None []]))])\<rparr>))) = [''MAIN'', ''FB_Motor'']"
    using th1 [THEN conjunct1] st c 2 5 by simp
  have 7: "logged (parse_pous (init \<lparr>sep = CHR ''/'', glob = no_files (''**/*.TcPOU'' := [([''MAIN.TcPOU''], Wellformed (Element ''TcPlcObject'' [] None [Element ''POU'' [(''Name'', ''MAIN'')] None []])), ([''Broken.TcPOU''], Malformed), ([''Empty.TcPOU''], Wellformed (Element ''TcPlcObject'' [] None [])), ([''Dir.TcPOU''], Unreadable), ([''FB_Motor.TcPOU''], Wellformed (Element ''TcPlcObject'' [] None [Element ''POU'' [(''Name'', ''FB_Motor''), (''SpecialFunc'', ''None'')] None []]))])\<rparr>)) =
       [(INFO, Found_files ''POU'' 5), (ERROR, XML_parse_error [''Broken.TcPOU'']),
        (ERROR, Error_parsing_file ''POU'' [''Dir.TcPOU''] OSError)]"
    using th1 [THEN conjunct2, THEN conjunct1] st by (simp add: logged_errors_def)
  show ?thesis
    using 1 2 3 4 5 6 7 by blast
qed

text \<open>
  No error is logged for a file whose top-level element is missing: the log holds the
  count of the files only.
\<close>

theorem C8_skipped_without_error:
  "pous (parse_pous (init \<lparr>sep = CHR ''/'', glob = no_files (''**/*.TcPOU'' := [([''Empty.TcPOU''], Wellformed (Element ''TcPlcObject'' [] None []))])\<rparr>)) = []
   \<and> logged (parse_pous (init \<lparr>sep = CHR ''/'', glob = no_files (''**/*.TcPOU'' := [([''Empty.TcPOU''], Wellformed (Element ''TcPlcObject'' [] None []))])\<rparr>)) =
       [(INFO, Found_files ''POU'' 1)]"
  by (simp add: parse_pous_def init_def get_project_included_files_def pou_files_def
      select_files_def parse_pou_file_def xml_defs no_files_def)

text \<open>
  C9. The member pattern is applied inside the structure block only, and a text without a
  structure block gives no member. The code misses it when the letters \<open>struct\<close> stand
  inside a word before the block: the pattern \<open>STRUCT\s*(.*?)END_STRUCT\<close> ignores case
  and asks for no word boundary, so that the block begins inside the word \<open>structure\<close> of a
  comment. The line \<open>TYPE ST_Motor :\<close> is then read as a member whose type runs up to the
  colon of the first true member, and the member \<open>speed\<close> of type \<open>REAL\<close> is not returned.
\<close>

theorem C9_word_in_comment_opens_block:
  "extract_struct_members
     ''// motor data structure\<newline>TYPE ST_Motor :\<newline>STRUCT\<newline>  speed : REAL;\<newline>END_STRUCT\<newline>END_TYPE'' =
   [\<lparr>var_name = ''ST_Motor'', var_type = ''STRUCT\<newline>  speed'', var_default = [],
     var_comment = []\<rparr>]"
  by (simp add: members_defs string_defs class_defs)

text \<open>
  C10. Of two structure blocks, the members come from the first one only. Nothing of the
  second block is returned, but the code misses the members of the first one when the
  letters \<open>struct\<close> stand inside a word before it, since the pattern of the block ignores
  case and asks for no word boundary: the block begins inside the word \<open>structures\<close> of the
  comment, the line \<open>TYPE ST_A :\<close> is read as a member, and the member \<open>a\<close> of type \<open>INT\<close> of
  the first block is not returned.
\<close>

theorem C10_first_block_members_lost:
  "extract_struct_members
     ''// two structures\<newline>TYPE ST_A :\<newline>STRUCT\<newline>  a : INT;\<newline>END_STRUCT\<newline>END_TYPE\<newline>TYPE ST_B :\<newline>STRUCT\<newline>  b : BOOL;\<newline>END_STRUCT\<newline>END_TYPE'' =
   [\<lparr>var_name = ''ST_A'', var_type = ''STRUCT\<newline>  a'', var_default = [], var_comment = []\<rparr>]"
  by (simp add: members_defs string_defs class_defs)

end
